theory Spec2Isabelle
  imports Main "HOL-Library.Sublist"
begin

section \<open>Python values and exceptions\<close>

text \<open>
  Record identifiers, prompts and model names are Python \<open>str\<close> values; \<open>Optional[str]\<close>
  is \<open>string option\<close>. The exceptions the handlers raise and catch are values of \<open>exn\<close>;
  a function that may raise returns \<open>exn + 'a\<close> with \<open>Inl\<close> for the raised exception.
\<close>

type_synonym record_id = string

datatype exn =
    HTTPException nat string
  | NotFoundError string
  | ValueError string
  | RuntimeError string
  | OtherError string

text \<open>\<open>s.startswith(p)\<close>.\<close>

definition startswith :: "string \<Rightarrow> string \<Rightarrow> bool" where
  "startswith s p = prefix p s"

text \<open>\<open>needle in hay\<close> on two strings: \<open>needle\<close> occurs as a contiguous piece of \<open>hay\<close>.\<close>

fun py_in :: "string \<Rightarrow> string \<Rightarrow> bool" where
  "py_in needle [] = (needle = [])"
| "py_in needle (c # cs) = (prefix needle (c # cs) \<or> py_in needle cs)"

text \<open>Truthiness of an \<open>Optional[str]\<close>: \<open>None\<close> and the empty string are falsy.\<close>

fun truthy :: "string option \<Rightarrow> bool" where
  "truthy None = False"
| "truthy (Some s) = (s \<noteq> [])"

text \<open>\<open>a or b\<close> on two \<open>Optional[str]\<close> values.\<close>

definition py_or :: "string option \<Rightarrow> string option \<Rightarrow> string option" where
  "py_or a b = (if truthy a then a else b)"

section \<open>api/models.py: SourceCreate\<close>

record SourceCreate =
  sc_notebook_id :: "string option"
  sc_notebooks :: "string list option"
  sc_type :: string
  sc_url :: "string option"
  sc_file_path :: "string option"
  sc_content :: "string option"
  sc_title :: "string option"
  sc_transformations :: "string list option"
  sc_embed :: bool
  sc_delete_source :: bool
  sc_async_processing :: bool

definition both_fields_message :: string where
  "both_fields_message =
     ''Cannot specify both 'notebook_id' and 'notebooks'. Use 'notebooks' for multi-notebook support.''"

text \<open>
  The \<open>model_validator(mode="after")\<close> of \<open>SourceCreate\<close>: three statements in the
  source's order, each reading the object the previous one left.
\<close>

definition validate_notebook_fields :: "SourceCreate \<Rightarrow> exn + SourceCreate" where
  "validate_notebook_fields self =
     (if sc_notebook_id self \<noteq> None \<and> sc_notebooks self \<noteq> None
      then Inl (ValueError both_fields_message)
      else
        let self1 = (case sc_notebook_id self of
                       Some n \<Rightarrow> self\<lparr>sc_notebooks := Some [n]\<rparr>
                     | None \<Rightarrow> self);
            self2 = (if sc_notebooks self1 = None then self1\<lparr>sc_notebooks := Some []\<rparr> else self1)
        in Inr self2)"

section \<open>The database\<close>

text \<open>
  The handlers reach the graph database through \<open>repo_query\<close> and the domain classes of
  \<open>open_notebook.domain\<close>. A table is a map from record ids to records. An edge table is
  the list of its edges: SurrealDB stores an edge as a record with the fields \<open>in\<close> (where the
  edge starts) and \<open>out\<close> (where it ends), and allows several edges between the same two
  records. \<open>reference\<close> links a source to a notebook, \<open>artifact\<close> a note to a notebook and
  \<open>refers_to\<close> a chat session to a notebook: the notebook queries count the sources of a
  notebook as \<open>count(<-reference.in)\<close>, and the chat handlers select \<open>out\<close> from \<open>refers_to\<close>
  where \<open>in\<close> is the session.
\<close>

record edge =
  edge_in :: record_id
  edge_out :: record_id

record Notebook =
  nb_name :: string
  nb_description :: string
  nb_archived :: bool
  nb_custom_system_prompt :: "string option"
  nb_active_prompt_id :: "string option"

record SystemPrompt =
  sp_name :: string
  sp_content :: string

record ChatSession =
  cs_id :: "string option"
  cs_title :: "string option"
  cs_model_override :: "string option"
  cs_created :: "string option"
  cs_updated :: "string option"

record Source =
  src_id :: "string option"
  src_title :: "string option"

record Note =
  nt_id :: "string option"
  nt_title :: "string option"

record database =
  notebook_tbl :: "record_id \<rightharpoonup> Notebook"
  source_tbl :: "record_id \<rightharpoonup> Source"
  note_tbl :: "record_id \<rightharpoonup> Note"
  system_prompt_tbl :: "record_id \<rightharpoonup> SystemPrompt"
  chat_session_tbl :: "record_id \<rightharpoonup> ChatSession"
  reference :: "edge list"
  artifact :: "edge list"
  refers_to :: "edge list"

text \<open>
  Modelled from the spec: \<open>ObjectModel.get\<close>, the class method behind \<open>Notebook.get\<close>,
  \<open>Source.get\<close>, \<open>Note.get\<close>, \<open>SystemPrompt.get\<close> and \<open>ChatSession.get\<close>, is one of the
  generic object-relational helpers of the spec's data model and is not among the source
  files. It returns the record stored under the id and raises \<open>NotFoundError\<close> when there is
  none: \<open>build_context\<close> uses the result of \<open>Source.get\<close> without a test and skips the source
  when the call raises, and the chat and prompt handlers answer \<open>NotFoundError\<close> with
  HTTP 404. The result type keeps Python's \<open>None\<close> so that the handlers' own
  \<open>if not notebook\<close> tests stay branches of their models.
\<close>

definition ObjectModel_get :: "(record_id \<rightharpoonup> 'a) \<Rightarrow> record_id \<Rightarrow> exn + 'a option" where
  "ObjectModel_get tbl i =
     (case tbl i of
        None \<Rightarrow> Inl (NotFoundError (''Object with id '' @ i @ '' not found''))
      | Some r \<Rightarrow> Inr (Some r))"

definition Notebook_get :: "database \<Rightarrow> record_id \<Rightarrow> exn + Notebook option" where
  "Notebook_get db = ObjectModel_get (notebook_tbl db)"

definition Source_get :: "database \<Rightarrow> record_id \<Rightarrow> exn + Source option" where
  "Source_get db = ObjectModel_get (source_tbl db)"

definition Note_get :: "database \<Rightarrow> record_id \<Rightarrow> exn + Note option" where
  "Note_get db = ObjectModel_get (note_tbl db)"

definition SystemPrompt_get :: "database \<Rightarrow> record_id \<Rightarrow> exn + SystemPrompt option" where
  "SystemPrompt_get db = ObjectModel_get (system_prompt_tbl db)"

definition ChatSession_get :: "database \<Rightarrow> record_id \<Rightarrow> exn + ChatSession option" where
  "ChatSession_get db = ObjectModel_get (chat_session_tbl db)"

text \<open>
  \<open>ensure_record_id\<close> turns the string \<open>table:key\<close> into the driver's record id; the model
  keeps record ids as strings.
\<close>

definition ensure_record_id :: "string \<Rightarrow> record_id" where
  "ensure_record_id s = s"

text \<open>
  The three statements that \<open>api/routers/notebooks.py\<close> sends through \<open>repo_query\<close>, with
  their SurrealQL meaning:
  \<^item> \<open>SELECT * FROM reference WHERE out = $a AND in = $b\<close> returns the edges that end at
    \<open>$a\<close> and start at \<open>$b\<close>;
  \<^item> \<open>RELATE $a->reference->$b\<close> adds one edge with \<open>in = $a\<close> and \<open>out = $b\<close>;
  \<^item> \<open>DELETE FROM reference WHERE out = $a AND in = $b\<close> removes every edge that ends at
    \<open>$a\<close> and starts at \<open>$b\<close>.
\<close>

definition select_where_out_in :: "edge list \<Rightarrow> record_id \<Rightarrow> record_id \<Rightarrow> edge list" where
  "select_where_out_in es out_v in_v = filter (\<lambda>e. edge_out e = out_v \<and> edge_in e = in_v) es"

definition relate :: "edge list \<Rightarrow> record_id \<Rightarrow> record_id \<Rightarrow> edge list" where
  "relate es from_v to_v = es @ [\<lparr>edge_in = from_v, edge_out = to_v\<rparr>]"

definition delete_where_out_in :: "edge list \<Rightarrow> record_id \<Rightarrow> record_id \<Rightarrow> edge list" where
  "delete_where_out_in es out_v in_v =
     filter (\<lambda>e. \<not> (edge_out e = out_v \<and> edge_in e = in_v)) es"

text \<open>\<open>str(e)\<close> of an exception; an \<open>HTTPException\<close> prints as \<open>status: detail\<close>.\<close>

fun str_nat :: "nat \<Rightarrow> string" where
  "str_nat n =
     (if n < 10 then [char_of (48 + n)]
      else str_nat (n div 10) @ [char_of (48 + n mod 10)])"

fun str_exn :: "exn \<Rightarrow> string" where
  "str_exn (HTTPException code detail) = str_nat code @ '': '' @ detail"
| "str_exn (NotFoundError m) = m"
| "str_exn (ValueError m) = m"
| "str_exn (RuntimeError m) = m"
| "str_exn (OtherError m) = m"

section \<open>api/routers/notebooks.py: linking sources to notebooks\<close>

text \<open>
  The two handlers end with \<open>except HTTPException: raise\<close> and
  \<open>except Exception as e: raise HTTPException(status_code=500, ...)\<close>.
\<close>

fun reraise_http :: "string \<Rightarrow> exn \<Rightarrow> exn" where
  "reraise_http what (HTTPException code detail) = HTTPException code detail"
| "reraise_http what e = HTTPException 500 (what @ '': '' @ str_exn e)"

text \<open>The body of the \<open>try\<close> of \<open>add_source_to_notebook\<close>: the result and the database after it.\<close>

definition add_source_to_notebook_body ::
  "database \<Rightarrow> string \<Rightarrow> string \<Rightarrow> (exn + string) \<times> database" where
  "add_source_to_notebook_body db notebook_id source_id =
     (case Notebook_get db notebook_id of
        Inl e \<Rightarrow> (Inl e, db)
      | Inr None \<Rightarrow> (Inl (HTTPException 404 ''Notebook not found''), db)
      | Inr (Some notebook) \<Rightarrow>
          (case Source_get db source_id of
             Inl e \<Rightarrow> (Inl e, db)
           | Inr None \<Rightarrow> (Inl (HTTPException 404 ''Source not found''), db)
           | Inr (Some source) \<Rightarrow>
               let existing_ref =
                     select_where_out_in (reference db)
                       (ensure_record_id source_id) (ensure_record_id notebook_id);
                   db' = (if existing_ref = []
                          then db\<lparr>reference :=
                                 relate (reference db)
                                   (ensure_record_id source_id) (ensure_record_id notebook_id)\<rparr>
                          else db)
               in (Inr ''Source linked to notebook successfully'', db')))"

definition add_source_to_notebook ::
  "database \<Rightarrow> string \<Rightarrow> string \<Rightarrow> (exn + string) \<times> database" where
  "add_source_to_notebook db notebook_id source_id =
     (case add_source_to_notebook_body db notebook_id source_id of
        (Inl e, db') \<Rightarrow> (Inl (reraise_http ''Error linking source to notebook'' e), db')
      | (Inr r, db') \<Rightarrow> (Inr r, db'))"

definition remove_source_from_notebook_body ::
  "database \<Rightarrow> string \<Rightarrow> string \<Rightarrow> (exn + string) \<times> database" where
  "remove_source_from_notebook_body db notebook_id source_id =
     (case Notebook_get db notebook_id of
        Inl e \<Rightarrow> (Inl e, db)
      | Inr None \<Rightarrow> (Inl (HTTPException 404 ''Notebook not found''), db)
      | Inr (Some notebook) \<Rightarrow>
          (Inr ''Source removed from notebook successfully'',
           db\<lparr>reference :=
                delete_where_out_in (reference db)
                  (ensure_record_id notebook_id) (ensure_record_id source_id)\<rparr>))"

definition remove_source_from_notebook ::
  "database \<Rightarrow> string \<Rightarrow> string \<Rightarrow> (exn + string) \<times> database" where
  "remove_source_from_notebook db notebook_id source_id =
     (case remove_source_from_notebook_body db notebook_id source_id of
        (Inl e, db') \<Rightarrow> (Inl (reraise_http ''Error removing source from notebook'' e), db')
      | (Inr r, db') \<Rightarrow> (Inr r, db'))"

text \<open>
  The reference edges that link a source to a notebook: they start at the source and end at
  the notebook, as \<open>RELATE $source_id->reference->$notebook_id\<close> creates them and as the
  notebook queries (\<open><-reference.in\<close>) read them.
\<close>

definition links :: "database \<Rightarrow> record_id \<Rightarrow> record_id \<Rightarrow> edge list" where
  "links db source_id notebook_id =
     filter (\<lambda>e. edge_in e = source_id \<and> edge_out e = notebook_id) (reference db)"

section \<open>Example data\<close>

definition example_notebook :: Notebook where
  "example_notebook =
     \<lparr>nb_name = ''Research'', nb_description = ''notes'', nb_archived = False,
      nb_custom_system_prompt = None, nb_active_prompt_id = None\<rparr>"

definition example_source :: Source where
  "example_source = \<lparr>src_id = Some ''source:s1'', src_title = Some ''Paper''\<rparr>"

text \<open>A database with one notebook, one source and no edge.\<close>

definition db_unlinked :: database where
  "db_unlinked =
     \<lparr>notebook_tbl = [''notebook:n1'' \<mapsto> example_notebook],
      source_tbl = [''source:s1'' \<mapsto> example_source],
      note_tbl = Map.empty, system_prompt_tbl = Map.empty, chat_session_tbl = Map.empty,
      reference = [], artifact = [], refers_to = []\<rparr>"

text \<open>The same database with two reference edges from the source to the notebook.\<close>

definition db_linked_twice :: database where
  "db_linked_twice =
     db_unlinked\<lparr>reference :=
       [\<lparr>edge_in = ''source:s1'', edge_out = ''notebook:n1''\<rparr>,
        \<lparr>edge_in = ''source:s1'', edge_out = ''notebook:n1''\<rparr>]\<rparr>"

section \<open>open_notebook/graphs/chat.py: the chat graph node\<close>

text \<open>
  The chat context is a dictionary with the optional keys \<open>sources\<close> and \<open>notes\<close>; a source is
  a dictionary with the optional keys \<open>id\<close>, \<open>title\<close>, \<open>full_text\<close> and \<open>insights\<close>, an insight
  one with \<open>id\<close>, \<open>insight_type\<close> and \<open>content\<close>, a note one with \<open>id\<close>, \<open>title\<close> and
  \<open>content\<close>. A key that is absent is \<open>None\<close>; the values that are present are strings (what
  the f-strings of the source print).
\<close>

record insight_ctx =
  ins_id :: "string option"
  ins_insight_type :: "string option"
  ins_content :: "string option"

record source_ctx =
  sx_id :: "string option"
  sx_title :: "string option"
  sx_full_text :: "string option"
  sx_insights :: "insight_ctx list option"

record note_ctx =
  nx_id :: "string option"
  nx_title :: "string option"
  nx_content :: "string option"

record chat_context =
  ctx_sources :: "source_ctx list option"
  ctx_notes :: "note_ctx list option"

text \<open>
  A message object: an attribute the object does not have is \<open>None\<close>; \<open>msg_str\<close> is what
  \<open>str(msg)\<close> prints.
\<close>

record message =
  msg_id :: "string option"
  msg_type :: "string option"
  msg_content :: "string option"
  msg_str :: string

text \<open>
  \<open>ThreadState\<close>. \<open>include_citations\<close> is read with \<open>state.get("include_citations", True)\<close>:
  \<open>None\<close> is the missing key, \<open>Some None\<close> the value \<open>None\<close>. The keys \<open>notebook\<close> and
  \<open>context_config\<close> are never read by the node.
\<close>

record ThreadState =
  ts_messages :: "message list"
  ts_context :: "chat_context option"
  ts_model_override :: "string option"
  ts_custom_system_prompt :: "string option"
  ts_include_citations :: "bool option option"

record RunnableConfig =
  cfg_thread_id :: string
  cfg_model_id :: "string option"

text \<open>\<open>d.get(key, default)\<close> printed in an f-string.\<close>

fun dict_get :: "string option \<Rightarrow> string \<Rightarrow> string" where
  "dict_get None d = d"
| "dict_get (Some v) d = v"

definition NL :: string where
  "NL = [CHR 0x0A]"

definition DQ :: string where
  "DQ = [CHR 0x22]"

text \<open>\<open>state.get("include_citations", True)\<close>, as the \<open>if\<close> tests of the node read it.\<close>

fun get_include_citations :: "bool option option \<Rightarrow> bool" where
  "get_include_citations None = True"
| "get_include_citations (Some None) = False"
| "get_include_citations (Some (Some b)) = b"

text \<open>The inner loop over \<open>source["insights"]\<close> of the custom-prompt branch.\<close>

fun add_insights :: "bool \<Rightarrow> insight_ctx list \<Rightarrow> string \<Rightarrow> string" where
  "add_insights include_citations [] context_str = context_str"
| "add_insights include_citations (insight # rest) context_str =
     add_insights include_citations rest
       (let insight_id = dict_get (ins_id insight) ''unknown'';
            insight_type = dict_get (ins_insight_type insight) ''Insight''
        in if include_citations
           then context_str @ NL @ ''### '' @ insight_type @ '' [ID: '' @ insight_id @ '']'' @ NL
                  @ dict_get (ins_content insight) '''' @ NL
           else context_str @ NL @ ''### '' @ insight_type @ NL
                  @ dict_get (ins_content insight) '''' @ NL)"

text \<open>The loop over \<open>context_data["sources"]\<close> of the custom-prompt branch.\<close>

fun add_sources :: "bool \<Rightarrow> source_ctx list \<Rightarrow> string \<Rightarrow> string" where
  "add_sources include_citations [] context_str = context_str"
| "add_sources include_citations (source # rest) context_str =
     add_sources include_citations rest
       (let source_id = dict_get (sx_id source) ''unknown'';
            s1 = (if include_citations
                  then context_str @ NL @ NL @ ''## Source: '' @ dict_get (sx_title source) ''Unknown''
                         @ '' [ID: '' @ source_id @ '']'' @ NL
                  else context_str @ NL @ NL @ ''## Source: '' @ dict_get (sx_title source) ''Unknown''
                         @ NL);
            s2 = (case sx_full_text source of
                    Some t \<Rightarrow> s1 @ NL @ ''### Full Content'' @ NL @ t @ NL
                  | None \<Rightarrow> s1)
        in (case sx_insights source of
              Some insights \<Rightarrow> add_insights include_citations insights s2
            | None \<Rightarrow> s2))"

text \<open>The loop over \<open>context_data["notes"]\<close> of the custom-prompt branch.\<close>

fun add_notes :: "bool \<Rightarrow> note_ctx list \<Rightarrow> string \<Rightarrow> string" where
  "add_notes include_citations [] context_str = context_str"
| "add_notes include_citations (note # rest) context_str =
     add_notes include_citations rest
       (let note_id = dict_get (nx_id note) ''unknown''
        in if include_citations
           then context_str @ NL @ NL @ ''## Note: '' @ dict_get (nx_title note) ''Unknown''
                  @ '' [ID: '' @ note_id @ '']'' @ NL @ dict_get (nx_content note) '''' @ NL
           else context_str @ NL @ NL @ ''## Note: '' @ dict_get (nx_title note) ''Unknown''
                  @ NL @ dict_get (nx_content note) '''' @ NL)"

text \<open>
  \<open>context_str\<close> as the custom-prompt branch builds it: the sources when the context is not
  \<open>None\<close> and has the key, then the notes likewise.
\<close>

definition build_context_str :: "bool \<Rightarrow> chat_context option \<Rightarrow> string" where
  "build_context_str include_citations context_data =
     (let c1 = (case context_data of
                  Some d \<Rightarrow> (case ctx_sources d of
                               Some sources \<Rightarrow> add_sources include_citations sources []
                             | None \<Rightarrow> [])
                | None \<Rightarrow> [])
      in (case context_data of
            Some d \<Rightarrow> (case ctx_notes d of
                         Some notes \<Rightarrow> add_notes include_citations notes c1
                       | None \<Rightarrow> c1)
          | None \<Rightarrow> c1))"

definition citing_instructions_text :: string where
  "citing_instructions_text =
     NL @ ''# CITING INSTRUCTIONS'' @ NL
     @ ''If your answer is based on any item in the context above, add references to the documents by including the document ID in brackets like this: [document_id].''
     @ NL @ NL
     @ ''Example: According to the regulations [source_insight:abc123], cosmetic labeling must include...''
     @ NL @ NL
     @ ''IMPORTANT:'' @ NL
     @ ''- Use document IDs exactly as provided in the context'' @ NL
     @ ''- IDs have prefixes like '' @ DQ @ ''source:'' @ DQ @ '', '' @ DQ @ ''source_insight:'' @ DQ
     @ '', '' @ DQ @ ''note:'' @ DQ @ NL
     @ ''- Do not make up or modify document IDs'' @ NL"

definition role_reminder :: string where
  "role_reminder =
     ''IMPORTANT: You must follow the role and behavior described above in your current response, regardless of what role you may have taken in previous messages.''"

text \<open>The system prompt of the branch \<open>if custom_prompt:\<close>.\<close>

definition custom_system_prompt_text :: "string \<Rightarrow> bool \<Rightarrow> chat_context option \<Rightarrow> string" where
  "custom_system_prompt_text custom_prompt include_citations context_data =
     (let context_str = build_context_str include_citations context_data
      in if context_str \<noteq> []
         then (let citing_instructions = (if include_citations then citing_instructions_text else [])
               in custom_prompt @ NL @ NL @ role_reminder @ NL @ NL
                  @ ''# Context Information'' @ NL @ context_str @ NL @ citing_instructions)
         else custom_prompt @ NL @ NL @ role_reminder)"

text \<open>The loops of the branch without a custom prompt and without citations: no ids.\<close>

fun add_insights_plain :: "insight_ctx list \<Rightarrow> string \<Rightarrow> string" where
  "add_insights_plain [] context_str = context_str"
| "add_insights_plain (insight # rest) context_str =
     add_insights_plain rest
       (context_str @ NL @ ''### '' @ dict_get (ins_insight_type insight) ''Insight'' @ NL
          @ dict_get (ins_content insight) '''' @ NL)"

fun add_sources_plain :: "source_ctx list \<Rightarrow> string \<Rightarrow> string" where
  "add_sources_plain [] context_str = context_str"
| "add_sources_plain (source # rest) context_str =
     add_sources_plain rest
       (let s1 = context_str @ NL @ NL @ ''## Source: '' @ dict_get (sx_title source) ''Unknown'' @ NL;
            s2 = (case sx_full_text source of
                    Some t \<Rightarrow> s1 @ NL @ ''### Full Content'' @ NL @ t @ NL
                  | None \<Rightarrow> s1)
        in (case sx_insights source of
              Some insights \<Rightarrow> add_insights_plain insights s2
            | None \<Rightarrow> s2))"

fun add_notes_plain :: "note_ctx list \<Rightarrow> string \<Rightarrow> string" where
  "add_notes_plain [] context_str = context_str"
| "add_notes_plain (note # rest) context_str =
     add_notes_plain rest
       (context_str @ NL @ NL @ ''## Note: '' @ dict_get (nx_title note) ''Unknown'' @ NL
          @ dict_get (nx_content note) '''' @ NL)"

definition default_system_prompt_text :: "chat_context option \<Rightarrow> string" where
  "default_system_prompt_text context_data =
     (let c1 = (case context_data of
                  Some d \<Rightarrow> (case ctx_sources d of
                               Some sources \<Rightarrow> add_sources_plain sources []
                             | None \<Rightarrow> [])
                | None \<Rightarrow> []);
          context_str = (case context_data of
                           Some d \<Rightarrow> (case ctx_notes d of
                                        Some notes \<Rightarrow> add_notes_plain notes c1
                                      | None \<Rightarrow> c1)
                         | None \<Rightarrow> c1)
      in if context_str \<noteq> []
         then ''You are a helpful AI assistant. Use the context information below to answer questions accurately.''
              @ NL @ NL @ ''# Context Information'' @ NL @ context_str @ NL @ NL
              @ ''Please provide your answers based on the context provided. Respond naturally without including document references or IDs.''
         else ''You are a helpful AI assistant.'')"

text \<open>
  The system prompt of \<open>call_model_with_messages\<close>. \<open>render_chat_system\<close> stands for
  \<open>Prompter(prompt_template="chat/system").render(data=state)\<close>, whose template is not among
  the source files.
\<close>

definition system_prompt_of :: "(ThreadState \<Rightarrow> string) \<Rightarrow> ThreadState \<Rightarrow> string" where
  "system_prompt_of render_chat_system state =
     (let custom_prompt = ts_custom_system_prompt state;
          include_citations = get_include_citations (ts_include_citations state)
      in if truthy custom_prompt
         then custom_system_prompt_text (dict_get custom_prompt []) include_citations (ts_context state)
         else if include_citations then render_chat_system state
         else default_system_prompt_text (ts_context state))"







text \<open>
  What the node calls outside the repository's source files. \<open>provision_langchain_model\<close>
  and \<open>clean_thinking_content\<close> are imported from \<open>open_notebook.ai.provision\<close> and
  \<open>open_notebook.utils\<close>; \<open>str(payload)\<close> is Python's printing of the message list; a model is
  what \<open>model.invoke(payload)\<close> computes; \<open>rt_loop_running\<close> says whether
  \<open>asyncio.get_running_loop()\<close> finds a running event loop in the calling thread;
  \<open>rt_uuid4\<close> are the identifiers that \<open>uuid.uuid4()\<close> gives, in the order they are asked for.
\<close>

record provision_args =
  pa_content :: string
  pa_model_id :: "string option"
  pa_default_type :: string
  pa_max_tokens :: nat

type_synonym language_model = "message list \<Rightarrow> exn + message"

record runtime =
  rt_render_chat_system :: "ThreadState \<Rightarrow> string"
  rt_str_payload :: "message list \<Rightarrow> string"
  rt_provision_langchain_model :: "provision_args \<Rightarrow> exn + language_model"
  rt_clean_thinking_content :: "string \<Rightarrow> string"
  rt_loop_running :: bool
  rt_uuid4 :: "nat \<Rightarrow> string"

text \<open>
  Each call of \<open>provision_langchain_model\<close> is recorded with the way its coroutine is run:
  in a new event loop on a worker thread, or by \<open>asyncio.run\<close>.
\<close>

datatype runner = ThreadWithNewLoop | AsyncioRun

record provision_call =
  pc_runner :: runner
  pc_args :: provision_args

definition SystemMessage :: "string \<Rightarrow> message" where
  "SystemMessage content =
     \<lparr>msg_id = None, msg_type = Some ''system'', msg_content = Some content, msg_str = content\<rparr>"

definition HumanMessage :: "string \<Rightarrow> message" where
  "HumanMessage content =
     \<lparr>msg_id = None, msg_type = Some ''human'', msg_content = Some content, msg_str = content\<rparr>"

text \<open>\<open>payload = [SystemMessage(content=system_prompt)] + state.get("messages", [])\<close>.\<close>

definition payload_of :: "runtime \<Rightarrow> ThreadState \<Rightarrow> message list" where
  "payload_of rt state =
     SystemMessage (system_prompt_of (rt_render_chat_system rt) state) # ts_messages state"

text \<open>
  \<open>model_id = config.get("configurable", {}).get("model_id") or state.get("model_override")\<close>.
\<close>

definition resolve_model_id :: "RunnableConfig \<Rightarrow> ThreadState \<Rightarrow> string option" where
  "resolve_model_id config state = py_or (cfg_model_id config) (ts_model_override state)"

text \<open>The call inside \<open>run_in_new_loop\<close>.\<close>

definition run_in_new_loop_args :: "runtime \<Rightarrow> message list \<Rightarrow> string option \<Rightarrow> provision_args" where
  "run_in_new_loop_args rt payload model_id =
     \<lparr>pa_content = rt_str_payload rt payload, pa_model_id = model_id,
      pa_default_type = ''chat'', pa_max_tokens = 8192\<rparr>"

text \<open>The call inside \<open>asyncio.run\<close> of the \<open>except RuntimeError\<close> branch.\<close>

definition asyncio_run_args :: "runtime \<Rightarrow> message list \<Rightarrow> string option \<Rightarrow> provision_args" where
  "asyncio_run_args rt payload model_id =
     \<lparr>pa_content = rt_str_payload rt payload,
      pa_model_id = model_id,
      pa_default_type = ''chat'',
      pa_max_tokens = 8192\<rparr>"

text \<open>
  The \<open>try\<close> around \<open>asyncio.get_running_loop()\<close>. With a running loop the coroutine runs
  on a worker thread; a \<open>RuntimeError\<close> that comes out of \<open>future.result()\<close> is caught by
  the same \<open>except RuntimeError\<close>, which calls \<open>provision_langchain_model\<close> again (with the
  arguments of that branch) and hands the coroutine to \<open>asyncio.run\<close>, which refuses to run
  inside a running loop. Without a running loop \<open>get_running_loop\<close> raises and the
  \<open>except\<close> branch provisions with \<open>asyncio.run\<close>.
\<close>

definition provision_model ::
  "runtime \<Rightarrow> message list \<Rightarrow> string option \<Rightarrow> provision_call list \<times> (exn + language_model)" where
  "provision_model rt payload model_id =
     (if rt_loop_running rt
      then (let a1 = run_in_new_loop_args rt payload model_id;
                c1 = \<lparr>pc_runner = ThreadWithNewLoop, pc_args = a1\<rparr>
            in case rt_provision_langchain_model rt a1 of
                 Inl (RuntimeError m) \<Rightarrow>
                   ([c1, \<lparr>pc_runner = AsyncioRun, pc_args = asyncio_run_args rt payload model_id\<rparr>],
                    Inl (RuntimeError ''asyncio.run() cannot be called from a running event loop''))
               | Inl e \<Rightarrow> ([c1], Inl e)
               | Inr model \<Rightarrow> ([c1], Inr model))
      else (let a2 = asyncio_run_args rt payload model_id
            in ([\<lparr>pc_runner = AsyncioRun, pc_args = a2\<rparr>], rt_provision_langchain_model rt a2)))"

text \<open>
  \<open>call_model_with_messages\<close>: the provisioning calls it makes and the cleaned AI message it
  returns under the key \<open>messages\<close>. Message contents are strings in this model, so
  \<open>isinstance(ai_message.content, str)\<close> holds whenever the attribute exists.
\<close>

definition call_model_with_messages ::
  "runtime \<Rightarrow> ThreadState \<Rightarrow> RunnableConfig \<Rightarrow> provision_call list \<times> (exn + message)" where
  "call_model_with_messages rt state config =
     (let payload = payload_of rt state;
          model_id = resolve_model_id config state
      in case provision_model rt payload model_id of
           (calls, Inl e) \<Rightarrow> (calls, Inl e)
         | (calls, Inr model) \<Rightarrow>
             (case model payload of
                Inl e \<Rightarrow> (calls, Inl e)
              | Inr ai_message \<Rightarrow>
                  (case msg_content ai_message of
                     None \<Rightarrow> (calls, Inl (OtherError ''AttributeError: content''))
                   | Some content \<Rightarrow>
                       (calls,
                        Inr (ai_message\<lparr>msg_content :=
                               Some (rt_clean_thinking_content rt content)\<rparr>)))))"

section \<open>Example data for the chat graph\<close>

definition example_source_ctx :: source_ctx where
  "example_source_ctx =
     \<lparr>sx_id = Some ''source:s1'', sx_title = Some ''Paper'', sx_full_text = Some ''Full text.'',
      sx_insights = Some [\<lparr>ins_id = Some ''source_insight:i1'', ins_insight_type = Some ''Summary'',
                           ins_content = Some ''Short.''\<rparr>]\<rparr>"

definition example_note_ctx :: note_ctx where
  "example_note_ctx =
     \<lparr>nx_id = Some ''note:k1'', nx_title = Some ''Idea'', nx_content = Some ''Try it.''\<rparr>"

definition example_state :: ThreadState where
  "example_state =
     \<lparr>ts_messages = [HumanMessage ''Hello''],
      ts_context = Some \<lparr>ctx_sources = Some [example_source_ctx], ctx_notes = Some [example_note_ctx]\<rparr>,
      ts_model_override = Some ''model:m1'',
      ts_custom_system_prompt = Some ''Be brief.'',
      ts_include_citations = Some (Some True)\<rparr>"

definition example_ai_message :: message where
  "example_ai_message =
     \<lparr>msg_id = Some ''ai1'', msg_type = Some ''ai'', msg_content = Some ''Hi'', msg_str = ''Hi''\<rparr>"

definition example_runtime :: runtime where
  "example_runtime =
     \<lparr>rt_render_chat_system = (\<lambda>state. ''default template''),
      rt_str_payload = (\<lambda>payload. concat (map msg_str payload)),
      rt_provision_langchain_model = (\<lambda>args. Inr (\<lambda>payload. Inr example_ai_message)),
      rt_clean_thinking_content = (\<lambda>content. content),
      rt_loop_running = True,
      rt_uuid4 = (\<lambda>k. ''uuid-'' @ str_nat k)\<rparr>"

section \<open>api/routers/chat.py: chat sessions\<close>

record CreateSessionRequest =
  csr_notebook_id :: string
  csr_title :: "string option"
  csr_model_override :: "string option"

text \<open>
  \<open>UpdateSessionRequest\<close> is read with \<open>model_dump(exclude_unset=True)\<close>: \<open>None\<close> is a field
  the request did not set, \<open>Some v\<close> a field set to \<open>v\<close> (which may be \<open>None\<close>).
\<close>

record UpdateSessionRequest =
  usr_title :: "string option option"
  usr_model_override :: "string option option"

record ChatMessage =
  cm_id :: string
  cm_type :: string
  cm_content :: string
  cm_timestamp :: "string option"

record ChatSessionResponse =
  r_id :: string
  r_title :: string
  r_notebook_id :: "string option"
  r_created :: string
  r_updated :: string
  r_message_count :: "nat option"
  r_model_override :: "string option"

record ChatSessionWithMessagesResponse = ChatSessionResponse +
  r_messages :: "ChatMessage list"

record ExecuteChatRequest =
  ecr_session_id :: string
  ecr_message :: string
  ecr_context :: chat_context
  ecr_model_override :: "string option"
  ecr_prompt_id :: "string option"
  ecr_include_citations :: bool

record ExecuteChatResponse =
  er_session_id :: string
  er_messages :: "ChatMessage list"

text \<open>
  What a request reads from outside: the current time in UTC+8 as the responses print it,
  the event loop's time as the default session title prints it, and the timestamp and the key
  the database gives to a record it stores.
\<close>

record environment =
  env_now :: string
  env_loop_time :: string
  env_db_time :: string
  env_new_key :: string

text \<open>The LangGraph checkpointer: the state values stored for each \<open>thread_id\<close>.\<close>

type_synonym checkpoints = "string \<rightharpoonup> ThreadState"

definition get_state :: "checkpoints \<Rightarrow> RunnableConfig \<Rightarrow> ThreadState option" where
  "get_state cp config = cp (cfg_thread_id config)"

text \<open>\<open>x or d\<close> for an \<open>Optional[str]\<close> and a string, and \<open>str(x)\<close> of an optional value.\<close>

fun or_str :: "string option \<Rightarrow> string \<Rightarrow> string" where
  "or_str None d = d"
| "or_str (Some s) d = (if s = [] then d else s)"

fun str_opt :: "string option \<Rightarrow> string" where
  "str_opt None = ''None''"
| "str_opt (Some s) = s"

text \<open>
  Modelled from the spec: \<open>save\<close>, \<open>delete\<close> and \<open>relate_to_notebook\<close> of \<open>ChatSession\<close> and
  \<open>get_active_prompt\<close> of \<open>Notebook\<close> belong to the generic object-relational helpers of the
  spec's data model and are not among the source files. \<open>save\<close> stores a new record under a
  fresh id of the table \<open>chat_session\<close> and an existing one under its id; \<open>delete\<close> removes the
  record, and the database removes with it the edges that start or end at it;
  \<open>relate_to_notebook\<close> adds the edge session \<open>->refers_to->\<close> notebook that the handlers
  query (\<open>SELECT out FROM refers_to WHERE in = $session_id\<close>); \<open>get_active_prompt\<close> returns
  \<open>None\<close> for a notebook without \<open>active_prompt_id\<close> and otherwise loads the prompt of that id
  with \<open>SystemPrompt.get\<close>, whose failure it passes on (the prompt router tests the result
  with \<open>if not prompt\<close> and wraps the call in a \<open>try\<close> for a prompt that was deleted).
\<close>

definition ChatSession_save :: "environment \<Rightarrow> database \<Rightarrow> ChatSession \<Rightarrow> database \<times> ChatSession" where
  "ChatSession_save env db session =
     (case cs_id session of
        None \<Rightarrow>
          (let i = ''chat_session:'' @ env_new_key env;
               s = session\<lparr>cs_id := Some i, cs_created := Some (env_db_time env),
                            cs_updated := Some (env_db_time env)\<rparr>
           in (db\<lparr>chat_session_tbl := (chat_session_tbl db)(i \<mapsto> s)\<rparr>, s))
      | Some i \<Rightarrow>
          (let s = session\<lparr>cs_updated := Some (env_db_time env)\<rparr>
           in (db\<lparr>chat_session_tbl := (chat_session_tbl db)(i \<mapsto> s)\<rparr>, s)))"

definition ChatSession_delete :: "database \<Rightarrow> ChatSession \<Rightarrow> exn + database" where
  "ChatSession_delete db session =
     (case cs_id session of
        None \<Rightarrow> Inl (OtherError ''Cannot delete object without an ID'')
      | Some i \<Rightarrow>
          Inr (db\<lparr>chat_session_tbl := (chat_session_tbl db)(i := None),
                  reference := filter (\<lambda>e. edge_in e \<noteq> i \<and> edge_out e \<noteq> i) (reference db),
                  artifact := filter (\<lambda>e. edge_in e \<noteq> i \<and> edge_out e \<noteq> i) (artifact db),
                  refers_to := filter (\<lambda>e. edge_in e \<noteq> i \<and> edge_out e \<noteq> i) (refers_to db)\<rparr>))"

definition relate_to_notebook :: "database \<Rightarrow> ChatSession \<Rightarrow> record_id \<Rightarrow> exn + database" where
  "relate_to_notebook db session notebook_id =
     (case cs_id session of
        None \<Rightarrow> Inl (OtherError ''Cannot relate object without an ID'')
      | Some i \<Rightarrow>
          Inr (db\<lparr>refers_to := relate (refers_to db) (ensure_record_id i)
                                  (ensure_record_id notebook_id)\<rparr>))"

definition get_active_prompt :: "database \<Rightarrow> Notebook \<Rightarrow> exn + SystemPrompt option" where
  "get_active_prompt db notebook =
     (if truthy (nb_active_prompt_id notebook)
      then SystemPrompt_get db (dict_get (nb_active_prompt_id notebook) [])
      else Inr None)"

text \<open>\<open>SELECT out FROM refers_to WHERE in = $session_id\<close>: the \<open>out\<close> of each matching edge.\<close>

definition select_out_where_in :: "edge list \<Rightarrow> record_id \<Rightarrow> record_id list" where
  "select_out_where_in es in_v = map edge_out (filter (\<lambda>e. edge_in e = in_v) es)"

text \<open>\<open>notebook_query[0]["out"] if notebook_query else None\<close>.\<close>

fun first_out :: "record_id list \<Rightarrow> record_id option" where
  "first_out [] = None"
| "first_out (x # xs) = Some x"

text \<open>
  The chat handlers end with \<open>except NotFoundError: raise HTTPException(status_code=404, ...)\<close>
  and \<open>except Exception as e: raise HTTPException(status_code=500, ...)\<close>; an
  \<open>HTTPException\<close> raised inside the \<open>try\<close> is an \<open>Exception\<close> and reaches the second clause.
\<close>

fun chat_except :: "string \<Rightarrow> string \<Rightarrow> exn \<Rightarrow> exn" where
  "chat_except not_found what (NotFoundError m) = HTTPException 404 not_found"
| "chat_except not_found what e = HTTPException 500 (what @ '': '' @ str_exn e)"

text \<open>
  The identifier with its table prefix, as each handler computes it before a lookup:
  \<open>session_id if session_id.startswith("chat_session:") else f"chat_session:{session_id}"\<close>.
\<close>

definition full_session_id :: "string \<Rightarrow> string" where
  "full_session_id session_id =
     (if startswith session_id ''chat_session:'' then session_id
      else ''chat_session:'' @ session_id)"

subsection \<open>create_session\<close>

definition create_session_body ::
  "environment \<Rightarrow> database \<Rightarrow> CreateSessionRequest \<Rightarrow> (exn + ChatSessionResponse) \<times> database" where
  "create_session_body env db request =
     (case Notebook_get db (csr_notebook_id request) of
        Inl e \<Rightarrow> (Inl e, db)
      | Inr None \<Rightarrow> (Inl (HTTPException 404 ''Notebook not found''), db)
      | Inr (Some notebook) \<Rightarrow>
          (let session = \<lparr>cs_id = None,
                          cs_title = Some (or_str (csr_title request)
                                             (''Chat Session '' @ env_loop_time env)),
                          cs_model_override = csr_model_override request,
                          cs_created = None, cs_updated = None\<rparr>;
               (db1, session1) = ChatSession_save env db session
           in case relate_to_notebook db1 session1 (csr_notebook_id request) of
                Inl e \<Rightarrow> (Inl e, db1)
              | Inr db2 \<Rightarrow>
                  (Inr \<lparr>r_id = or_str (cs_id session1) [],
                        r_title = or_str (cs_title session1) [],
                        r_notebook_id = Some (csr_notebook_id request),
                        r_created = str_opt (cs_created session1),
                        r_updated = str_opt (cs_updated session1),
                        r_message_count = Some 0,
                        r_model_override = cs_model_override session1\<rparr>, db2)))"

definition create_session ::
  "environment \<Rightarrow> database \<Rightarrow> CreateSessionRequest \<Rightarrow> (exn + ChatSessionResponse) \<times> database" where
  "create_session env db request =
     (case create_session_body env db request of
        (Inl e, db') \<Rightarrow>
          (Inl (chat_except ''Notebook not found'' ''Error creating chat session'' e), db')
      | (Inr r, db') \<Rightarrow> (Inr r, db'))"

subsection \<open>get_session\<close>

text \<open>The loop that turns the messages of the thread state into \<open>ChatMessage\<close> values.\<close>

fun to_chat_messages :: "string \<Rightarrow> message list \<Rightarrow> ChatMessage list \<Rightarrow> ChatMessage list" where
  "to_chat_messages current_time [] messages = messages"
| "to_chat_messages current_time (msg # rest) messages =
     to_chat_messages current_time rest
       (messages @
          [\<lparr>cm_id = dict_get (msg_id msg) (''msg_'' @ str_nat (length messages)),
            cm_type = dict_get (msg_type msg) ''unknown'',
            cm_content = dict_get (msg_content msg) (msg_str msg),
            cm_timestamp = Some current_time\<rparr>])"

definition get_session_body ::
  "environment \<Rightarrow> database \<Rightarrow> checkpoints \<Rightarrow> string \<Rightarrow> exn + ChatSessionWithMessagesResponse" where
  "get_session_body env db cp session_id =
     (let full_id = full_session_id session_id
      in case ChatSession_get db full_id of
           Inl e \<Rightarrow> Inl e
         | Inr None \<Rightarrow> Inl (HTTPException 404 ''Session not found'')
         | Inr (Some session) \<Rightarrow>
             (let thread_state = get_state cp \<lparr>cfg_thread_id = session_id, cfg_model_id = None\<rparr>;
                  messages = (case thread_state of
                                Some values \<Rightarrow> to_chat_messages (env_now env) (ts_messages values) []
                              | None \<Rightarrow> []);
                  full_id2 = full_session_id session_id;
                  notebook_query = select_out_where_in (refers_to db) (ensure_record_id full_id2);
                  notebook_id = first_out notebook_query
              in Inr \<lparr>r_id = or_str (cs_id session) [],
                      r_title = or_str (cs_title session) ''Untitled Session'',
                      r_notebook_id = notebook_id,
                      r_created = str_opt (cs_created session),
                      r_updated = str_opt (cs_updated session),
                      r_message_count = Some (length messages),
                      r_model_override = cs_model_override session,
                      r_messages = messages\<rparr>))"

definition get_session ::
  "environment \<Rightarrow> database \<Rightarrow> checkpoints \<Rightarrow> string \<Rightarrow> exn + ChatSessionWithMessagesResponse" where
  "get_session env db cp session_id =
     (case get_session_body env db cp session_id of
        Inl e \<Rightarrow> Inl (chat_except ''Session not found'' ''Error fetching session'' e)
      | Inr r \<Rightarrow> Inr r)"

subsection \<open>update_session and delete_session\<close>

definition update_session_body ::
  "environment \<Rightarrow> database \<Rightarrow> string \<Rightarrow> UpdateSessionRequest \<Rightarrow>
     (exn + ChatSessionResponse) \<times> database" where
  "update_session_body env db session_id request =
     (let full_id = full_session_id session_id
      in case ChatSession_get db full_id of
           Inl e \<Rightarrow> (Inl e, db)
         | Inr None \<Rightarrow> (Inl (HTTPException 404 ''Session not found''), db)
         | Inr (Some session) \<Rightarrow>
             (let s1 = (case usr_title request of
                          Some t \<Rightarrow> session\<lparr>cs_title := t\<rparr> | None \<Rightarrow> session);
                  s2 = (case usr_model_override request of
                          Some m \<Rightarrow> s1\<lparr>cs_model_override := m\<rparr> | None \<Rightarrow> s1);
                  (db1, s3) = ChatSession_save env db s2;
                  full_id2 = full_session_id session_id;
                  notebook_query = select_out_where_in (refers_to db1) (ensure_record_id full_id2);
                  notebook_id = first_out notebook_query
              in (Inr \<lparr>r_id = or_str (cs_id s3) [],
                       r_title = or_str (cs_title s3) [],
                       r_notebook_id = notebook_id,
                       r_created = str_opt (cs_created s3),
                       r_updated = str_opt (cs_updated s3),
                       r_message_count = Some 0,
                       r_model_override = cs_model_override s3\<rparr>, db1)))"

definition update_session ::
  "environment \<Rightarrow> database \<Rightarrow> string \<Rightarrow> UpdateSessionRequest \<Rightarrow>
     (exn + ChatSessionResponse) \<times> database" where
  "update_session env db session_id request =
     (case update_session_body env db session_id request of
        (Inl e, db') \<Rightarrow> (Inl (chat_except ''Session not found'' ''Error updating session'' e), db')
      | (Inr r, db') \<Rightarrow> (Inr r, db'))"

definition delete_session_body :: "database \<Rightarrow> string \<Rightarrow> (exn + string) \<times> database" where
  "delete_session_body db session_id =
     (let full_id = full_session_id session_id
      in case ChatSession_get db full_id of
           Inl e \<Rightarrow> (Inl e, db)
         | Inr None \<Rightarrow> (Inl (HTTPException 404 ''Session not found''), db)
         | Inr (Some session) \<Rightarrow>
             (case ChatSession_delete db session of
                Inl e \<Rightarrow> (Inl e, db)
              | Inr db1 \<Rightarrow> (Inr ''Session deleted successfully'', db1)))"

definition delete_session :: "database \<Rightarrow> string \<Rightarrow> (exn + string) \<times> database" where
  "delete_session db session_id =
     (case delete_session_body db session_id of
        (Inl e, db') \<Rightarrow> (Inl (chat_except ''Session not found'' ''Error deleting session'' e), db')
      | (Inr r, db') \<Rightarrow> (Inr r, db'))"

subsection \<open>execute_chat\<close>

text \<open>
  Step 2 of \<open>execute_chat\<close>: the custom system prompt. \<open>notebook_id\<close> is the result of the
  \<open>refers_to\<close> query. A failure of \<open>Notebook.get\<close> or of \<open>notebook.get_active_prompt\<close>
  leaves the handler; a failure of \<open>SystemPrompt.get\<close> for the request's prompt is caught by
  the \<open>try\<close> around it and only logged.
\<close>

definition resolve_custom_system_prompt ::
  "database \<Rightarrow> ExecuteChatRequest \<Rightarrow> record_id option \<Rightarrow> exn + string option" where
  "resolve_custom_system_prompt db request notebook_id =
     (case notebook_id of
        None \<Rightarrow> Inr None
      | Some nid \<Rightarrow>
          (case Notebook_get db nid of
             Inl e \<Rightarrow> Inl e
           | Inr None \<Rightarrow> Inr None
           | Inr (Some notebook) \<Rightarrow>
               (let c1 = (if truthy (ecr_prompt_id request)
                          then (case SystemPrompt_get db (dict_get (ecr_prompt_id request) []) of
                                  Inr (Some specified_prompt) \<Rightarrow> Some (sp_content specified_prompt)
                                | _ \<Rightarrow> None)
                          else None);
                    r2 = (if \<not> truthy c1 \<and> truthy (nb_active_prompt_id notebook)
                          then (case get_active_prompt db notebook of
                                  Inl e \<Rightarrow> Inl e
                                | Inr (Some active_prompt) \<Rightarrow> Inr (Some (sp_content active_prompt))
                                | Inr None \<Rightarrow> Inr c1)
                          else Inr c1)
                in case r2 of
                     Inl e \<Rightarrow> Inl e
                   | Inr c2 \<Rightarrow>
                       Inr (if \<not> truthy c2 \<and> truthy (nb_custom_system_prompt notebook)
                            then nb_custom_system_prompt notebook
                            else c2))))"

text \<open>
  Steps 1 to 4 of \<open>execute_chat\<close>: the session that was read, and the state values and the
  configuration that are handed to \<open>chat_graph.invoke\<close>.
\<close>

definition execute_chat_prepare ::
  "database \<Rightarrow> checkpoints \<Rightarrow> ExecuteChatRequest \<Rightarrow>
     exn + ChatSession \<times> ThreadState \<times> RunnableConfig" where
  "execute_chat_prepare db cp request =
     (let full_id = full_session_id (ecr_session_id request)
      in case ChatSession_get db full_id of
           Inl e \<Rightarrow> Inl e
         | Inr None \<Rightarrow> Inl (HTTPException 404 ''Session not found'')
         | Inr (Some session) \<Rightarrow>
             (let model_override = (case ecr_model_override request of
                                      Some m \<Rightarrow> Some m
                                    | None \<Rightarrow> cs_model_override session);
                  notebook_query = select_out_where_in (refers_to db) (ensure_record_id full_id);
                  notebook_id = first_out notebook_query
              in case resolve_custom_system_prompt db request notebook_id of
                   Inl e \<Rightarrow> Inl e
                 | Inr custom_system_prompt \<Rightarrow>
                     (let current_state =
                            get_state cp \<lparr>cfg_thread_id = ecr_session_id request, cfg_model_id = None\<rparr>;
                          messages = (case current_state of
                                        Some values \<Rightarrow> ts_messages values | None \<Rightarrow> []);
                          state_values =
                            \<lparr>ts_messages = messages @ [HumanMessage (ecr_message request)],
                             ts_context = Some (ecr_context request),
                             ts_model_override = model_override,
                             ts_custom_system_prompt = custom_system_prompt,
                             ts_include_citations = Some (Some (ecr_include_citations request))\<rparr>
                      in Inr (session, state_values,
                              \<lparr>cfg_thread_id = ecr_session_id request,
                               cfg_model_id = model_override\<rparr>))))"

text \<open>
  LangGraph's reducer \<open>add_messages\<close> of the \<open>messages\<close> channel: a message without an id gets
  a new uuid; then each message of the update replaces the stored message that has its id,
  or is appended when no stored message has it.
\<close>

fun assign_ids :: "(nat \<Rightarrow> string) \<Rightarrow> nat \<Rightarrow> message list \<Rightarrow> message list \<times> nat" where
  "assign_ids uuid k [] = ([], k)"
| "assign_ids uuid k (m # ms) =
     (case msg_id m of
        Some i \<Rightarrow> (let (r, k') = assign_ids uuid k ms in (m # r, k'))
      | None \<Rightarrow> (let (r, k') = assign_ids uuid (Suc k) ms
                 in (m\<lparr>msg_id := Some (uuid k)\<rparr> # r, k')))"

fun upsert_message :: "message \<Rightarrow> message list \<Rightarrow> message list" where
  "upsert_message m [] = [m]"
| "upsert_message m (x # xs) =
     (if msg_id x = msg_id m then m # xs else x # upsert_message m xs)"

fun merge_messages :: "message list \<Rightarrow> message list \<Rightarrow> message list" where
  "merge_messages merged [] = merged"
| "merge_messages merged (m # ms) = merge_messages (upsert_message m merged) ms"

definition add_messages ::
  "(nat \<Rightarrow> string) \<Rightarrow> nat \<Rightarrow> message list \<Rightarrow> message list \<Rightarrow> message list \<times> nat" where
  "add_messages uuid k left right =
     (let (l, k1) = assign_ids uuid k left;
          (r, k2) = assign_ids uuid k1 right
      in (merge_messages l r, k2))"

text \<open>
  \<open>chat_graph.invoke\<close> for the graph \<open>START -> agent -> END\<close> whose only node is
  \<open>call_model_with_messages\<close>, compiled with a checkpointer. The input is written to the
  thread's channels (the messages through \<open>add_messages\<close> onto the checkpointed ones, every
  other key of the input replacing the stored value) and checkpointed; then the node runs
  on that state under the configuration; its message is added through \<open>add_messages\<close> and
  the result is checkpointed and returned. When the node raises, the exception leaves
  \<open>invoke\<close> and the thread keeps the checkpoint of the input.
\<close>

definition graph_input_state ::
  "runtime \<Rightarrow> checkpoints \<Rightarrow> ThreadState \<Rightarrow> RunnableConfig \<Rightarrow> ThreadState \<times> nat" where
  "graph_input_state rt cp input config =
     (let stored = (case cp (cfg_thread_id config) of
                      Some values \<Rightarrow> ts_messages values | None \<Rightarrow> []);
          (messages, k) = add_messages (rt_uuid4 rt) 0 stored (ts_messages input)
      in (input\<lparr>ts_messages := messages\<rparr>, k))"

definition chat_graph_invoke ::
  "runtime \<Rightarrow> checkpoints \<Rightarrow> ThreadState \<Rightarrow> RunnableConfig \<Rightarrow>
     provision_call list \<times> (exn + ThreadState) \<times> checkpoints" where
  "chat_graph_invoke rt cp input config =
     (let (state, k) = graph_input_state rt cp input config;
          cp1 = cp(cfg_thread_id config \<mapsto> state)
      in case call_model_with_messages rt state config of
           (calls, Inl e) \<Rightarrow> (calls, Inl e, cp1)
         | (calls, Inr ai_message) \<Rightarrow>
             (let (messages, k') = add_messages (rt_uuid4 rt) k (ts_messages state) [ai_message];
                  result = state\<lparr>ts_messages := messages\<rparr>
              in (calls, Inr result, cp1(cfg_thread_id config \<mapsto> result))))"

text \<open>
  \<open>execute_chat\<close>: the provisioning calls made on the way, the response, and the database and
  the checkpoints after it.
\<close>

definition execute_chat_body ::
  "environment \<Rightarrow> runtime \<Rightarrow> database \<Rightarrow> checkpoints \<Rightarrow> ExecuteChatRequest \<Rightarrow>
     provision_call list \<times> (exn + ExecuteChatResponse) \<times> database \<times> checkpoints" where
  "execute_chat_body env rt db cp request =
     (case execute_chat_prepare db cp request of
        Inl e \<Rightarrow> ([], Inl e, db, cp)
      | Inr (session, state_values, config) \<Rightarrow>
          (case chat_graph_invoke rt cp state_values config of
             (calls, Inl e, cp1) \<Rightarrow> (calls, Inl e, db, cp1)
           | (calls, Inr result, cp1) \<Rightarrow>
               (let (db1, session1) = ChatSession_save env db session;
                    messages = to_chat_messages (env_now env) (ts_messages result) []
                in (calls,
                    Inr \<lparr>er_session_id = ecr_session_id request, er_messages = messages\<rparr>,
                    db1, cp1))))"

definition execute_chat ::
  "environment \<Rightarrow> runtime \<Rightarrow> database \<Rightarrow> checkpoints \<Rightarrow> ExecuteChatRequest \<Rightarrow>
     provision_call list \<times> (exn + ExecuteChatResponse) \<times> database \<times> checkpoints" where
  "execute_chat env rt db cp request =
     (case execute_chat_body env rt db cp request of
        (calls, Inl e, db', cp') \<Rightarrow>
          (calls, Inl (chat_except ''Session not found'' ''Error executing chat'' e), db', cp')
      | (calls, Inr r, db', cp') \<Rightarrow> (calls, Inr r, db', cp'))"

text \<open>
  The override chain that the specification states for model selection, in its words:
  request, then session, then the model of the notebook's active prompt, then the notebook's
  default model.
\<close>

definition spec_model_chain ::
  "string option \<Rightarrow> string option \<Rightarrow> string option \<Rightarrow> string \<Rightarrow> string" where
  "spec_model_chain request_model session_model active_prompt_model notebook_default =
     (case request_model of
        Some m \<Rightarrow> m
      | None \<Rightarrow>
          (case session_model of
             Some m \<Rightarrow> m
           | None \<Rightarrow>
               (case active_prompt_model of
                  Some m \<Rightarrow> m
                | None \<Rightarrow> notebook_default)))"

section \<open>Example data for the chat handlers\<close>

definition example_env :: environment where
  "example_env =
     \<lparr>env_now = ''2025-01-01T08:00:00+08:00'', env_loop_time = ''12345'',
      env_db_time = ''2025-01-01T00:00:00Z'', env_new_key = ''k1''\<rparr>"

definition example_session :: ChatSession where
  "example_session =
     \<lparr>cs_id = Some ''chat_session:abc'', cs_title = Some ''Talk'', cs_model_override = None,
      cs_created = Some ''2024-12-31T00:00:00Z'', cs_updated = Some ''2024-12-31T00:00:00Z''\<rparr>"

definition example_prompt :: SystemPrompt where
  "example_prompt = \<lparr>sp_name = ''Pirate'', sp_content = ''Be a pirate.''\<rparr>"

definition example_empty_prompt :: SystemPrompt where
  "example_empty_prompt = \<lparr>sp_name = ''Empty'', sp_content = []\<rparr>"

definition example_active_prompt :: SystemPrompt where
  "example_active_prompt = \<lparr>sp_name = ''Teacher'', sp_content = ''Be a teacher.''\<rparr>"

text \<open>
  A session that has no \<open>refers_to\<close> edge (one created before the sessions were related to
  notebooks), next to a notebook and three prompts.
\<close>

definition db_orphan_session :: database where
  "db_orphan_session =
     \<lparr>notebook_tbl = [''notebook:n1'' \<mapsto> example_notebook\<lparr>nb_active_prompt_id := Some ''system_prompt:p2''\<rparr>],
      source_tbl = Map.empty, note_tbl = Map.empty,
      system_prompt_tbl = [''system_prompt:p1'' \<mapsto> example_prompt,
                           ''system_prompt:p2'' \<mapsto> example_active_prompt,
                           ''system_prompt:p3'' \<mapsto> example_empty_prompt],
      chat_session_tbl = [''chat_session:abc'' \<mapsto> example_session],
      reference = [], artifact = [], refers_to = []\<rparr>"

text \<open>The same database with the session related to the notebook.\<close>

definition db_chat :: database where
  "db_chat =
     db_orphan_session\<lparr>refers_to :=
       [\<lparr>edge_in = ''chat_session:abc'', edge_out = ''notebook:n1''\<rparr>]\<rparr>"

definition example_request :: ExecuteChatRequest where
  "example_request =
     \<lparr>ecr_session_id = ''chat_session:abc'', ecr_message = ''Hello'',
      ecr_context = \<lparr>ctx_sources = Some [], ctx_notes = Some []\<rparr>,
      ecr_model_override = None, ecr_prompt_id = Some ''system_prompt:p1'',
      ecr_include_citations = False\<rparr>"

text \<open>Checkpoints that hold one thread, stored under the prefixed session id.\<close>

definition example_checkpoints :: checkpoints where
  "example_checkpoints =
     [''chat_session:abc'' \<mapsto>
        \<lparr>ts_messages = [example_ai_message], ts_context = None, ts_model_override = None,
         ts_custom_system_prompt = None, ts_include_citations = Some (Some False)\<rparr>]"

text \<open>
  The two prompt contents that the priority rule of \<open>execute_chat\<close> speaks of: the content of
  the prompt named by \<open>request.prompt_id\<close> when that prompt is stored, and the content of the
  notebook's active prompt when \<open>active_prompt_id\<close> is set and names a stored prompt.
\<close>

definition specified_prompt_content :: "database \<Rightarrow> ExecuteChatRequest \<Rightarrow> string option" where
  "specified_prompt_content db request =
     (case ecr_prompt_id request of
        None \<Rightarrow> None
      | Some pid \<Rightarrow> if pid = [] then None else map_option sp_content (system_prompt_tbl db pid))"

definition active_prompt_content :: "database \<Rightarrow> Notebook \<Rightarrow> string option" where
  "active_prompt_content db notebook =
     (case nb_active_prompt_id notebook of
        None \<Rightarrow> None
      | Some pid \<Rightarrow> if pid = [] then None else map_option sp_content (system_prompt_tbl db pid))"

text \<open>
  The notebook gives no active prompt text: it has no \<open>active_prompt_id\<close>, or the prompt of
  that id is stored with an empty content.
\<close>

definition active_prompt_empty :: "database \<Rightarrow> Notebook \<Rightarrow> bool" where
  "active_prompt_empty db notebook =
     (case nb_active_prompt_id notebook of
        None \<Rightarrow> True
      | Some pid \<Rightarrow>
          pid = [] \<or> (case system_prompt_tbl db pid of
                        Some p \<Rightarrow> sp_content p = []
                      | None \<Rightarrow> False))"

text \<open>The notebook a session is related to: the first \<open>out\<close> of its \<open>refers_to\<close> edges.\<close>

definition session_notebook_id :: "database \<Rightarrow> string \<Rightarrow> record_id option" where
  "session_notebook_id db session_id =
     first_out (select_out_where_in (refers_to db) (full_session_id session_id))"

text \<open>The parts of a prepared chat execution that do not come from the checkpointed thread.\<close>

definition resolved_settings ::
  "exn + ChatSession \<times> ThreadState \<times> RunnableConfig \<Rightarrow>
     exn + ChatSession \<times> string option \<times> string option \<times> chat_context option
           \<times> bool option option \<times> string option" where
  "resolved_settings r =
     map_sum id
       (\<lambda>(session, st, cfg).
          (session, ts_model_override st, ts_custom_system_prompt st, ts_context st,
           ts_include_citations st, cfg_model_id cfg)) r"

text \<open>A session response without its message list and message count.\<close>

definition without_messages ::
  "exn + ChatSessionWithMessagesResponse \<Rightarrow> exn + ChatSessionWithMessagesResponse" where
  "without_messages r = map_sum id (\<lambda>x. x\<lparr>r_message_count := None, r_messages := []\<rparr>) r"

text \<open>
  The priority among the three prompt sources, \<open>None\<close> and the empty string counting as
  absent: the specified prompt's content, then the active prompt's content, then the
  notebook's legacy field; when all three are absent the result is one of the absent values.
\<close>

definition prompt_priority ::
  "string option \<Rightarrow> string option \<Rightarrow> string option \<Rightarrow> string option" where
  "prompt_priority s a l =
     (if truthy s then s
      else if a \<noteq> None then (if truthy a then a else if truthy l then l else a)
      else if truthy l then l else s)"

section \<open>api/routers/chat.py: build_context\<close>

text \<open>
  The context configuration is a dictionary; its keys \<open>sources\<close> and \<open>notes\<close> map ids to
  status strings, in the order of the dictionary. \<open>cc_other_keys\<close> are the other keys it may
  hold: the test \<open>if request.context_config:\<close> holds as soon as the dictionary has any key.
\<close>

record context_config =
  cc_sources :: "(string \<times> string) list option"
  cc_notes :: "(string \<times> string) list option"
  cc_other_keys :: "string list"

record BuildContextRequest =
  bcr_notebook_id :: string
  bcr_context_config :: context_config

record BuildContextResponse =
  bc_sources :: "source_ctx list"
  bc_notes :: "note_ctx list"
  bc_token_count :: nat
  bc_char_count :: nat

datatype context_size = Short | Long

text \<open>
  What \<open>build_context\<close> calls outside the repository's source files: \<open>get_context\<close> of a
  source and of a note (either may raise), Python's \<open>str\<close> of a context dictionary, and
  \<open>token_count\<close> of \<open>open_notebook.utils\<close> (\<open>None\<close> when the import fails).
\<close>

record context_ops =
  co_source_get_context :: "Source \<Rightarrow> context_size \<Rightarrow> exn + source_ctx"
  co_note_get_context :: "Note \<Rightarrow> context_size \<Rightarrow> exn + note_ctx"
  co_str_source_context :: "source_ctx \<Rightarrow> string"
  co_str_note_context :: "note_ctx \<Rightarrow> string"
  co_token_count :: "(string \<Rightarrow> nat) option"

text \<open>
  Modelled from the spec: \<open>get_sources\<close> and \<open>get_notes\<close> of \<open>Notebook\<close> are not among the
  source files. They return the stored sources and notes that a \<open>reference\<close> or \<open>artifact\<close>
  edge links to the notebook (source-in-notebook and note-in-notebook are edges of the graph
  database, counted by the notebook queries as \<open><-reference.in\<close> and \<open><-artifact.in\<close>).
\<close>

definition Notebook_get_sources :: "database \<Rightarrow> record_id \<Rightarrow> Source list" where
  "Notebook_get_sources db notebook_id =
     concat (map (\<lambda>e. case source_tbl db (edge_in e) of Some s \<Rightarrow> [s] | None \<Rightarrow> [])
                 (filter (\<lambda>e. edge_out e = notebook_id) (reference db)))"

definition Notebook_get_notes :: "database \<Rightarrow> record_id \<Rightarrow> Note list" where
  "Notebook_get_notes db notebook_id =
     concat (map (\<lambda>e. case note_tbl db (edge_in e) of Some n \<Rightarrow> [n] | None \<Rightarrow> [])
                 (filter (\<lambda>e. edge_out e = notebook_id) (artifact db)))"

text \<open>\<open>if request.context_config:\<close>.\<close>

definition config_given :: "context_config \<Rightarrow> bool" where
  "config_given c = (cc_sources c \<noteq> None \<or> cc_notes c \<noteq> None \<or> cc_other_keys c \<noteq> [])"

text \<open>
  The accumulators of the handler are \<open>context_data["sources"]\<close> or \<open>context_data["notes"]\<close>
  and \<open>total_content\<close>. Appending a context that \<open>get_context\<close> returned; when the call raises,
  the \<open>except\<close> of the loop body logs and continues.
\<close>

definition append_source_context ::
  "context_ops \<Rightarrow> Source \<Rightarrow> context_size \<Rightarrow> source_ctx list \<times> string \<Rightarrow> source_ctx list \<times> string" where
  "append_source_context ops source context_size acc =
     (case co_source_get_context ops source context_size of
        Inl e \<Rightarrow> acc
      | Inr source_context \<Rightarrow>
          (fst acc @ [source_context], snd acc @ co_str_source_context ops source_context))"

definition append_note_context ::
  "context_ops \<Rightarrow> Note \<Rightarrow> context_size \<Rightarrow> note_ctx list \<times> string \<Rightarrow> note_ctx list \<times> string" where
  "append_note_context ops note context_size acc =
     (case co_note_get_context ops note context_size of
        Inl e \<Rightarrow> acc
      | Inr note_context \<Rightarrow>
          (fst acc @ [note_context], snd acc @ co_str_note_context ops note_context))"

text \<open>One pass of the loop over \<open>sources_config.items()\<close>.\<close>

definition source_step ::
  "context_ops \<Rightarrow> database \<Rightarrow> string \<times> string \<Rightarrow> source_ctx list \<times> string \<Rightarrow>
     source_ctx list \<times> string" where
  "source_step ops db item acc =
     (let source_id = fst item; status = snd item
      in if py_in ''not in'' status then acc
         else (let full_source_id = (if startswith source_id ''source:'' then source_id
                                     else ''source:'' @ source_id)
               in case Source_get db full_source_id of
                    Inl e \<Rightarrow> acc
                  | Inr None \<Rightarrow> acc
                  | Inr (Some source) \<Rightarrow>
                      if py_in ''insights'' status then append_source_context ops source Short acc
                      else if py_in ''full content'' status
                      then append_source_context ops source Long acc
                      else acc))"

fun process_sources ::
  "context_ops \<Rightarrow> database \<Rightarrow> (string \<times> string) list \<Rightarrow> source_ctx list \<times> string \<Rightarrow>
     source_ctx list \<times> string" where
  "process_sources ops db [] acc = acc"
| "process_sources ops db (item # rest) acc = process_sources ops db rest (source_step ops db item acc)"

text \<open>One pass of the loop over the items of \<open>context_config["notes"]\<close>.\<close>

definition note_step ::
  "context_ops \<Rightarrow> database \<Rightarrow> string \<times> string \<Rightarrow> note_ctx list \<times> string \<Rightarrow>
     note_ctx list \<times> string" where
  "note_step ops db item acc =
     (let note_id = fst item; status = snd item
      in if py_in ''not in'' status then acc
         else (let full_note_id = (if startswith note_id ''note:'' then note_id
                                   else ''note:'' @ note_id)
               in case Note_get db full_note_id of
                    Inl e \<Rightarrow> acc
                  | Inr None \<Rightarrow> acc
                  | Inr (Some note) \<Rightarrow>
                      if py_in ''full content'' status then append_note_context ops note Long acc
                      else acc))"

fun process_notes ::
  "context_ops \<Rightarrow> database \<Rightarrow> (string \<times> string) list \<Rightarrow> note_ctx list \<times> string \<Rightarrow>
     note_ctx list \<times> string" where
  "process_notes ops db [] acc = acc"
| "process_notes ops db (item # rest) acc = process_notes ops db rest (note_step ops db item acc)"

text \<open>The loops of the default branch: every source and note with the short context.\<close>

fun all_sources_short ::
  "context_ops \<Rightarrow> Source list \<Rightarrow> source_ctx list \<times> string \<Rightarrow> source_ctx list \<times> string" where
  "all_sources_short ops [] acc = acc"
| "all_sources_short ops (source # rest) acc =
     all_sources_short ops rest (append_source_context ops source Short acc)"

fun all_notes_short ::
  "context_ops \<Rightarrow> Note list \<Rightarrow> note_ctx list \<times> string \<Rightarrow> note_ctx list \<times> string" where
  "all_notes_short ops [] acc = acc"
| "all_notes_short ops (note # rest) acc =
     all_notes_short ops rest (append_note_context ops note Short acc)"

text \<open>\<open>dict.get(key, {}).items()\<close>.\<close>

fun items_of :: "(string \<times> string) list option \<Rightarrow> (string \<times> string) list" where
  "items_of None = []"
| "items_of (Some xs) = xs"

definition build_context_body ::
  "context_ops \<Rightarrow> database \<Rightarrow> BuildContextRequest \<Rightarrow> exn + BuildContextResponse" where
  "build_context_body ops db request =
     (case Notebook_get db (bcr_notebook_id request) of
        Inl e \<Rightarrow> Inl e
      | Inr None \<Rightarrow> Inl (HTTPException 404 ''Notebook not found'')
      | Inr (Some notebook) \<Rightarrow>
          (let config = bcr_context_config request;
               (sources, total1) =
                 (if config_given config
                  then process_sources ops db (items_of (cc_sources config)) ([], [])
                  else all_sources_short ops
                         (Notebook_get_sources db (bcr_notebook_id request)) ([], []));
               (notes, total_content) =
                 (if config_given config
                  then process_notes ops db (items_of (cc_notes config)) ([], total1)
                  else all_notes_short ops
                         (Notebook_get_notes db (bcr_notebook_id request)) ([], total1));
               char_count = length total_content;
               estimated_tokens =
                 (case co_token_count ops of
                    Some token_count \<Rightarrow> if total_content \<noteq> [] then token_count total_content else 0
                  | None \<Rightarrow> char_count div 4)
           in Inr \<lparr>bc_sources = sources, bc_notes = notes,
                   bc_token_count = estimated_tokens, bc_char_count = char_count\<rparr>))"

definition build_context ::
  "context_ops \<Rightarrow> database \<Rightarrow> BuildContextRequest \<Rightarrow> exn + BuildContextResponse" where
  "build_context ops db request =
     (case build_context_body ops db request of
        Inl e \<Rightarrow> Inl (reraise_http ''Error building context'' e)
      | Inr r \<Rightarrow> Inr r)"

text \<open>
  What one configured source, one configured note, one source and one note of the notebook
  add to the context lists.
\<close>

definition source_contribution :: "context_ops \<Rightarrow> database \<Rightarrow> string \<times> string \<Rightarrow> source_ctx list" where
  "source_contribution ops db item = fst (source_step ops db item ([], []))"

definition note_contribution :: "context_ops \<Rightarrow> database \<Rightarrow> string \<times> string \<Rightarrow> note_ctx list" where
  "note_contribution ops db item = fst (note_step ops db item ([], []))"

definition short_source_context :: "context_ops \<Rightarrow> Source \<Rightarrow> source_ctx list" where
  "short_source_context ops source = fst (append_source_context ops source Short ([], []))"

definition short_note_context :: "context_ops \<Rightarrow> Note \<Rightarrow> note_ctx list" where
  "short_note_context ops note = fst (append_note_context ops note Short ([], []))"

text \<open>The source and the note a configured id names, with the table prefix added when absent.\<close>

definition configured_source :: "database \<Rightarrow> string \<Rightarrow> Source option" where
  "configured_source db source_id =
     source_tbl db (if startswith source_id ''source:'' then source_id else ''source:'' @ source_id)"

definition configured_note :: "database \<Rightarrow> string \<Rightarrow> Note option" where
  "configured_note db note_id =
     note_tbl db (if startswith note_id ''note:'' then note_id else ''note:'' @ note_id)"

section \<open>Example data for build_context\<close>

definition example_note :: Note where
  "example_note = \<lparr>nt_id = Some ''note:k1'', nt_title = Some ''Idea''\<rparr>"

definition example_short_source_ctx :: source_ctx where
  "example_short_source_ctx = example_source_ctx\<lparr>sx_full_text := None\<rparr>"

definition example_short_note_ctx :: note_ctx where
  "example_short_note_ctx = example_note_ctx\<lparr>nx_content := Some ''Try''\<rparr>"

definition example_ops :: context_ops where
  "example_ops =
     \<lparr>co_source_get_context =
        (\<lambda>source context_size.
           case context_size of
             Short \<Rightarrow> Inr example_short_source_ctx
           | Long \<Rightarrow> Inr example_source_ctx),
      co_note_get_context =
        (\<lambda>note context_size.
           case context_size of
             Short \<Rightarrow> Inr example_short_note_ctx
           | Long \<Rightarrow> Inr example_note_ctx),
      co_str_source_context = (\<lambda>c. dict_get (sx_title c) []),
      co_str_note_context = (\<lambda>c. dict_get (nx_title c) []),
      co_token_count = None\<rparr>"

text \<open>A notebook with one source and one note, both linked to it.\<close>

definition db_context :: database where
  "db_context =
     db_unlinked\<lparr>note_tbl := [''note:k1'' \<mapsto> example_note],
                 reference := [\<lparr>edge_in = ''source:s1'', edge_out = ''notebook:n1''\<rparr>],
                 artifact := [\<lparr>edge_in = ''note:k1'', edge_out = ''notebook:n1''\<rparr>]\<rparr>"

definition example_context_request :: BuildContextRequest where
  "example_context_request =
     \<lparr>bcr_notebook_id = ''notebook:n1'',
      bcr_context_config =
        \<lparr>cc_sources = Some [(''s1'', ''insights''), (''source:s1'', ''not in context'')],
         cc_notes = Some [(''note:k1'', ''full content''), (''k1'', ''insights'')],
         cc_other_keys = []\<rparr>\<rparr>"

definition example_default_request :: BuildContextRequest where
  "example_default_request =
     \<lparr>bcr_notebook_id = ''notebook:n1'',
      bcr_context_config = \<lparr>cc_sources = None, cc_notes = None, cc_other_keys = []\<rparr>\<rparr>"

section \<open>Properties\<close>

text \<open>
  C6. A source belongs to zero or more notebooks. A creation request with neither
  \<open>notebook_id\<close> nor \<open>notebooks\<close> is accepted and its notebook list becomes empty; a request
  with only the legacy \<open>notebook_id\<close> is accepted and its notebook list becomes the one-element
  list of that id (the legacy field is kept); a request with only \<open>notebooks\<close> is accepted
  unchanged; a request with both fields is rejected with a validation error.
\<close>

theorem validate_notebook_fields_cases:
  "(sc_notebook_id r = None \<and> sc_notebooks r = None \<longrightarrow>
      validate_notebook_fields r = Inr (r\<lparr>sc_notebooks := Some []\<rparr>)) \<and>
   (sc_notebook_id r = Some n \<and> sc_notebooks r = None \<longrightarrow>
      validate_notebook_fields r = Inr (r\<lparr>sc_notebooks := Some [n]\<rparr>)) \<and>
   (sc_notebook_id r = None \<and> sc_notebooks r = Some ns \<longrightarrow>
      validate_notebook_fields r = Inr r) \<and>
   (sc_notebook_id r = Some n \<and> sc_notebooks r = Some ns \<longrightarrow>
      validate_notebook_fields r = Inl (ValueError both_fields_message))"
  by (simp add: validate_notebook_fields_def)

theorem validate_notebook_fields_cases_witness:
  "validate_notebook_fields
     \<lparr>sc_notebook_id = None, sc_notebooks = None, sc_type = ''text'', sc_url = None,
      sc_file_path = None, sc_content = Some ''hello'', sc_title = None,
      sc_transformations = Some [], sc_embed = False, sc_delete_source = False,
      sc_async_processing = False\<rparr>
   = Inr \<lparr>sc_notebook_id = None, sc_notebooks = Some [], sc_type = ''text'', sc_url = None,
      sc_file_path = None, sc_content = Some ''hello'', sc_title = None,
      sc_transformations = Some [], sc_embed = False, sc_delete_source = False,
      sc_async_processing = False\<rparr> \<and>
   validate_notebook_fields
     \<lparr>sc_notebook_id = Some ''notebook:a'', sc_notebooks = None, sc_type = ''text'', sc_url = None,
      sc_file_path = None, sc_content = Some ''hello'', sc_title = None,
      sc_transformations = Some [], sc_embed = False, sc_delete_source = False,
      sc_async_processing = False\<rparr>
   = Inr \<lparr>sc_notebook_id = Some ''notebook:a'', sc_notebooks = Some [''notebook:a''],
      sc_type = ''text'', sc_url = None,
      sc_file_path = None, sc_content = Some ''hello'', sc_title = None,
      sc_transformations = Some [], sc_embed = False, sc_delete_source = False,
      sc_async_processing = False\<rparr> \<and>
   (\<exists>m. validate_notebook_fields
     \<lparr>sc_notebook_id = Some ''notebook:a'', sc_notebooks = Some [''notebook:b''],
      sc_type = ''text'', sc_url = None,
      sc_file_path = None, sc_content = Some ''hello'', sc_title = None,
      sc_transformations = Some [], sc_embed = False, sc_delete_source = False,
      sc_async_processing = False\<rparr> = Inl (ValueError m))"
  using
    validate_notebook_fields_cases [of
      "\<lparr>sc_notebook_id = None, sc_notebooks = None, sc_type = ''text'', sc_url = None,
      sc_file_path = None, sc_content = Some ''hello'', sc_title = None,
      sc_transformations = Some [], sc_embed = False, sc_delete_source = False,
      sc_async_processing = False\<rparr>"]
    validate_notebook_fields_cases [of
      "\<lparr>sc_notebook_id = Some ''notebook:a'', sc_notebooks = None, sc_type = ''text'', sc_url = None,
      sc_file_path = None, sc_content = Some ''hello'', sc_title = None,
      sc_transformations = Some [], sc_embed = False, sc_delete_source = False,
      sc_async_processing = False\<rparr>" "''notebook:a''"]
    validate_notebook_fields_cases [of
      "\<lparr>sc_notebook_id = Some ''notebook:a'', sc_notebooks = Some [''notebook:b''],
      sc_type = ''text'', sc_url = None,
      sc_file_path = None, sc_content = Some ''hello'', sc_title = None,
      sc_transformations = Some [], sc_embed = False, sc_delete_source = False,
      sc_async_processing = False\<rparr>" "''notebook:a''" "[''notebook:b'']"]
  by simp

text \<open>
  C5. For every existing notebook and source, \<open>add_source_to_notebook\<close> followed by
  \<open>remove_source_from_notebook\<close> for the same pair succeeds twice and leaves no reference edge
  from that source to that notebook, however many such edges the database held before; every
  other reference edge is kept.
\<close>

theorem add_then_remove_no_link:
  assumes "notebook_tbl db nid = Some nb" and "source_tbl db sid = Some s"
  shows "let (r1, db1) = add_source_to_notebook db nid sid;
             (r2, db2) = remove_source_from_notebook db1 nid sid
         in r1 = Inr ''Source linked to notebook successfully'' \<and>
            r2 = Inr ''Source removed from notebook successfully'' \<and>
            links db2 sid nid = [] \<and>
            reference db2 = filter (\<lambda>e. \<not> (edge_in e = sid \<and> edge_out e = nid)) (reference db)"
  using assms
  by (auto simp add: add_source_to_notebook_def add_source_to_notebook_body_def Notebook_get_def
      Source_get_def ObjectModel_get_def ensure_record_id_def Let_def remove_source_from_notebook_def
      remove_source_from_notebook_body_def links_def delete_where_out_in_def relate_def
      select_where_out_in_def filter_empty_conv split: prod.splits intro: filter_cong)

theorem add_then_remove_no_link_witness:
  "notebook_tbl db_linked_twice ''notebook:n1'' = Some example_notebook \<and>
   source_tbl db_linked_twice ''source:s1'' = Some example_source \<and>
   length (links db_linked_twice ''source:s1'' ''notebook:n1'') = 2 \<and>
   links (snd (remove_source_from_notebook
                 (snd (add_source_to_notebook db_linked_twice ''notebook:n1'' ''source:s1''))
                 ''notebook:n1'' ''source:s1''))
         ''source:s1'' ''notebook:n1'' = []"
proof -
  have n: "notebook_tbl db_linked_twice ''notebook:n1'' = Some example_notebook"
    by (simp add: db_linked_twice_def db_unlinked_def)
  have s: "source_tbl db_linked_twice ''source:s1'' = Some example_source"
    by (simp add: db_linked_twice_def db_unlinked_def)
  have l: "length (links db_linked_twice ''source:s1'' ''notebook:n1'') = 2"
    by (simp add: db_linked_twice_def db_unlinked_def links_def)
  from add_then_remove_no_link [OF n s] n s l show ?thesis
    by (simp add: Let_def split: prod.splits)
qed

text \<open>
  C9. \<open>add_source_to_notebook\<close> called twice for the same existing notebook and source:
  the test for an existing reference looks for an edge that ends at the source and starts
  at the notebook, the reverse of the edge that \<open>RELATE\<close> creates, so the second call finds
  nothing and adds a second edge from the source to the notebook.
\<close>

theorem add_source_twice_two_links:
  "links (snd (add_source_to_notebook
                 (snd (add_source_to_notebook db_unlinked ''notebook:n1'' ''source:s1''))
                 ''notebook:n1'' ''source:s1''))
         ''source:s1'' ''notebook:n1''
   = [\<lparr>edge_in = ''source:s1'', edge_out = ''notebook:n1''\<rparr>,
      \<lparr>edge_in = ''source:s1'', edge_out = ''notebook:n1''\<rparr>]"
  by (simp add: db_unlinked_def add_source_to_notebook_def add_source_to_notebook_body_def
      Notebook_get_def Source_get_def ObjectModel_get_def ensure_record_id_def Let_def links_def
      relate_def select_where_out_in_def)











text \<open>
  The event-loop fallback, branch by branch: what it calls and what it returns.
\<close>

lemma provision_model_no_loop:
  "\<not> rt_loop_running rt \<Longrightarrow>
     provision_model rt payload model_id =
       ([\<lparr>pc_runner = AsyncioRun, pc_args = asyncio_run_args rt payload model_id\<rparr>],
        rt_provision_langchain_model rt (asyncio_run_args rt payload model_id))"
  by (simp add: provision_model_def Let_def)

lemma provision_model_loop:
  assumes "rt_loop_running rt"
    and "\<forall>m. rt_provision_langchain_model rt (run_in_new_loop_args rt payload model_id)
               \<noteq> Inl (RuntimeError m)"
  shows "provision_model rt payload model_id =
       ([\<lparr>pc_runner = ThreadWithNewLoop, pc_args = run_in_new_loop_args rt payload model_id\<rparr>],
        rt_provision_langchain_model rt (run_in_new_loop_args rt payload model_id))"
proof (cases "rt_provision_langchain_model rt (run_in_new_loop_args rt payload model_id)")
  case (Inl e)
  with assms show ?thesis
    by (cases e) (simp_all add: provision_model_def Let_def)
next
  case (Inr model)
  with assms show ?thesis
    by (simp add: provision_model_def Let_def)
qed

lemma provision_model_loop_runtime_error:
  assumes "rt_loop_running rt"
    and "rt_provision_langchain_model rt (run_in_new_loop_args rt payload model_id)
           = Inl (RuntimeError m)"
  shows "provision_model rt payload model_id =
       ([\<lparr>pc_runner = ThreadWithNewLoop, pc_args = run_in_new_loop_args rt payload model_id\<rparr>,
         \<lparr>pc_runner = AsyncioRun, pc_args = asyncio_run_args rt payload model_id\<rparr>],
        Inl (RuntimeError ''asyncio.run() cannot be called from a running event loop''))"
  using assms by (simp add: provision_model_def Let_def)

lemma provision_args_same:
  "run_in_new_loop_args rt payload model_id = asyncio_run_args rt payload model_id"
  by (simp add: run_in_new_loop_args_def asyncio_run_args_def)

lemma provision_args_loop_flag:
  "run_in_new_loop_args (rt\<lparr>rt_loop_running := b\<rparr>) payload model_id =
     run_in_new_loop_args rt payload model_id"
  "asyncio_run_args (rt\<lparr>rt_loop_running := b\<rparr>) payload model_id =
     asyncio_run_args rt payload model_id"
  "payload_of (rt\<lparr>rt_loop_running := b\<rparr>) state = payload_of rt state"
  by (simp_all add: run_in_new_loop_args_def asyncio_run_args_def payload_of_def)

lemma provision_model_branches_agree:
  assumes "\<forall>m. rt_provision_langchain_model rt (run_in_new_loop_args rt payload model_id)
               \<noteq> Inl (RuntimeError m)"
  shows "snd (provision_model (rt\<lparr>rt_loop_running := True\<rparr>) payload model_id) =
         snd (provision_model (rt\<lparr>rt_loop_running := False\<rparr>) payload model_id)"
proof -
  have a: "provision_model (rt\<lparr>rt_loop_running := True\<rparr>) payload model_id =
       ([\<lparr>pc_runner = ThreadWithNewLoop, pc_args = run_in_new_loop_args rt payload model_id\<rparr>],
        rt_provision_langchain_model rt (run_in_new_loop_args rt payload model_id))"
    using provision_model_loop [of "rt\<lparr>rt_loop_running := True\<rparr>" payload model_id] assms
    by (simp add: provision_args_loop_flag)
  have b: "provision_model (rt\<lparr>rt_loop_running := False\<rparr>) payload model_id =
       ([\<lparr>pc_runner = AsyncioRun, pc_args = asyncio_run_args rt payload model_id\<rparr>],
        rt_provision_langchain_model rt (asyncio_run_args rt payload model_id))"
    using provision_model_no_loop [of "rt\<lparr>rt_loop_running := False\<rparr>" payload model_id]
    by (simp add: provision_args_loop_flag)
  show ?thesis
    by (simp add: a b provision_args_same)
qed

lemma call_model_after_provision:
  assumes "provision_model rt (payload_of rt state) (resolve_model_id config state) = (calls, r)"
  shows "call_model_with_messages rt state config =
     (calls,
      case r of
        Inl e \<Rightarrow> Inl e
      | Inr model \<Rightarrow>
          (case model (payload_of rt state) of
             Inl e \<Rightarrow> Inl e
           | Inr ai_message \<Rightarrow>
               (case msg_content ai_message of
                  None \<Rightarrow> Inl (OtherError ''AttributeError: content'')
                | Some content \<Rightarrow>
                    Inr (ai_message\<lparr>msg_content :=
                           Some (rt_clean_thinking_content rt content)\<rparr>))))"
  using assms
  by (simp add: call_model_with_messages_def Let_def split: sum.splits option.splits)

lemma call_model_loop_flag:
  "call_model_with_messages (rt\<lparr>rt_loop_running := b\<rparr>) state config =
     (fst (provision_model (rt\<lparr>rt_loop_running := b\<rparr>) (payload_of rt state)
             (resolve_model_id config state)),
      case snd (provision_model (rt\<lparr>rt_loop_running := b\<rparr>) (payload_of rt state)
                  (resolve_model_id config state)) of
        Inl e \<Rightarrow> Inl e
      | Inr model \<Rightarrow>
          (case model (payload_of rt state) of
             Inl e \<Rightarrow> Inl e
           | Inr ai_message \<Rightarrow>
               (case msg_content ai_message of
                  None \<Rightarrow> Inl (OtherError ''AttributeError: content'')
                | Some content \<Rightarrow>
                    Inr (ai_message\<lparr>msg_content :=
                           Some (rt_clean_thinking_content rt content)\<rparr>))))"
  using call_model_after_provision [of "rt\<lparr>rt_loop_running := b\<rparr>" state config
      "fst (provision_model (rt\<lparr>rt_loop_running := b\<rparr>) (payload_of rt state)
             (resolve_model_id config state))"
      "snd (provision_model (rt\<lparr>rt_loop_running := b\<rparr>) (payload_of rt state)
             (resolve_model_id config state))"]
  by (simp add: provision_args_loop_flag cong: sum.case_cong option.case_cong)

lemma call_model_calls_args:
  "fst (call_model_with_messages rt state config) \<noteq> [] \<and>
   (\<forall>c \<in> set (fst (call_model_with_messages rt state config)).
      pc_args c =
        \<lparr>pa_content = rt_str_payload rt (payload_of rt state),
         pa_model_id = resolve_model_id config state,
         pa_default_type = ''chat'', pa_max_tokens = 8192\<rparr>) \<and>
   pc_args (hd (fst (call_model_with_messages (rt\<lparr>rt_loop_running := True\<rparr>) state config))) =
   pc_args (hd (fst (call_model_with_messages (rt\<lparr>rt_loop_running := False\<rparr>) state config)))"
  by (auto simp add: run_in_new_loop_args_def asyncio_run_args_def call_model_with_messages_def
      provision_model_def payload_of_def Let_def
      split: sum.splits exn.splits option.splits prod.splits if_splits)

text \<open>
  C4. In \<open>call_model_with_messages\<close> the two branches of the event-loop fallback provision
  the model identically. They build the same arguments for \<open>provision_langchain_model\<close>: the
  stringified payload, the resolved model id, the purpose \<open>chat\<close> and \<open>max_tokens = 8192\<close>.
  Without a running loop the fallback returns what \<open>provision_langchain_model\<close> returns on
  these arguments, and so it does with a running loop unless that call raises a
  \<open>RuntimeError\<close>; in that case the \<open>except\<close> clause calls it once more with the same
  arguments and \<open>asyncio.run\<close> raises. So, unless provisioning raises a \<open>RuntimeError\<close>, the
  node returns the same result on both paths: the cleaned answer of the provisioned model
  to the payload. Every provisioning call the node makes carries these arguments, and it
  makes at least one.
\<close>

theorem provisioning_calls_agree:
  "run_in_new_loop_args rt payload model_id = asyncio_run_args rt payload model_id \<and>
   asyncio_run_args rt payload model_id =
     \<lparr>pa_content = rt_str_payload rt payload, pa_model_id = model_id,
      pa_default_type = ''chat'', pa_max_tokens = 8192\<rparr> \<and>
   (\<not> rt_loop_running rt \<longrightarrow>
      provision_model rt payload model_id =
        ([\<lparr>pc_runner = AsyncioRun, pc_args = asyncio_run_args rt payload model_id\<rparr>],
         rt_provision_langchain_model rt (asyncio_run_args rt payload model_id))) \<and>
   (rt_loop_running rt \<and>
    (\<forall>m. rt_provision_langchain_model rt (run_in_new_loop_args rt payload model_id)
           \<noteq> Inl (RuntimeError m)) \<longrightarrow>
      provision_model rt payload model_id =
        ([\<lparr>pc_runner = ThreadWithNewLoop, pc_args = run_in_new_loop_args rt payload model_id\<rparr>],
         rt_provision_langchain_model rt (run_in_new_loop_args rt payload model_id))) \<and>
   (\<forall>m. rt_loop_running rt \<and>
        rt_provision_langchain_model rt (run_in_new_loop_args rt payload model_id)
          = Inl (RuntimeError m) \<longrightarrow>
      provision_model rt payload model_id =
        ([\<lparr>pc_runner = ThreadWithNewLoop, pc_args = run_in_new_loop_args rt payload model_id\<rparr>,
          \<lparr>pc_runner = AsyncioRun, pc_args = asyncio_run_args rt payload model_id\<rparr>],
         Inl (RuntimeError ''asyncio.run() cannot be called from a running event loop''))) \<and>
   ((\<forall>m. rt_provision_langchain_model rt
            (run_in_new_loop_args rt (payload_of rt state) (resolve_model_id config state))
          \<noteq> Inl (RuntimeError m)) \<longrightarrow>
      snd (call_model_with_messages (rt\<lparr>rt_loop_running := True\<rparr>) state config) =
      snd (call_model_with_messages (rt\<lparr>rt_loop_running := False\<rparr>) state config) \<and>
      snd (call_model_with_messages rt state config) =
        (case rt_provision_langchain_model rt
                (asyncio_run_args rt (payload_of rt state) (resolve_model_id config state)) of
           Inl e \<Rightarrow> Inl e
         | Inr model \<Rightarrow>
             (case model (payload_of rt state) of
                Inl e \<Rightarrow> Inl e
              | Inr ai_message \<Rightarrow>
                  (case msg_content ai_message of
                     None \<Rightarrow> Inl (OtherError ''AttributeError: content'')
                   | Some content \<Rightarrow>
                       Inr (ai_message\<lparr>msg_content :=
                              Some (rt_clean_thinking_content rt content)\<rparr>))))) \<and>
   fst (call_model_with_messages rt state config) \<noteq> [] \<and>
   (\<forall>c \<in> set (fst (call_model_with_messages rt state config)).
      pc_args c =
        \<lparr>pa_content = rt_str_payload rt (payload_of rt state),
         pa_model_id = resolve_model_id config state,
         pa_default_type = ''chat'', pa_max_tokens = 8192\<rparr>) \<and>
   pc_args (hd (fst (call_model_with_messages (rt\<lparr>rt_loop_running := True\<rparr>) state config))) =
   pc_args (hd (fst (call_model_with_messages (rt\<lparr>rt_loop_running := False\<rparr>) state config)))"
proof -
  let ?p = "payload_of rt state" and ?m = "resolve_model_id config state"
  have r: "snd (call_model_with_messages (rt\<lparr>rt_loop_running := True\<rparr>) state config) =
           snd (call_model_with_messages (rt\<lparr>rt_loop_running := False\<rparr>) state config)"
    if h: "\<forall>m. rt_provision_langchain_model rt (run_in_new_loop_args rt ?p ?m) \<noteq> Inl (RuntimeError m)"
    unfolding call_model_loop_flag using provision_model_branches_agree [OF h] by simp
  have n: "snd (call_model_with_messages rt state config) =
        (case rt_provision_langchain_model rt (asyncio_run_args rt ?p ?m) of
           Inl e \<Rightarrow> Inl e
         | Inr model \<Rightarrow>
             (case model ?p of
                Inl e \<Rightarrow> Inl e
              | Inr ai_message \<Rightarrow>
                  (case msg_content ai_message of
                     None \<Rightarrow> Inl (OtherError ''AttributeError: content'')
                   | Some content \<Rightarrow>
                       Inr (ai_message\<lparr>msg_content :=
                              Some (rt_clean_thinking_content rt content)\<rparr>))))"
    if h: "\<forall>m. rt_provision_langchain_model rt (run_in_new_loop_args rt ?p ?m) \<noteq> Inl (RuntimeError m)"
  proof (cases "rt_loop_running rt")
    case True
    from call_model_after_provision [OF provision_model_loop [OF True h]]
    show ?thesis by (simp add: provision_args_same)
  next
    case False
    from call_model_after_provision [OF provision_model_no_loop [OF False]]
    show ?thesis by simp
  qed
  show ?thesis
    using provision_args_same [of rt payload model_id]
      provision_model_no_loop [of rt payload model_id]
      provision_model_loop [of rt payload model_id]
      provision_model_loop_runtime_error [of rt payload model_id]
      r n call_model_calls_args [of rt state config]
    by (intro conjI impI allI) (simp_all add: asyncio_run_args_def)
qed

theorem provisioning_calls_agree_witness:
  "map pc_args (fst (call_model_with_messages example_runtime example_state
          \<lparr>cfg_thread_id = ''chat_session:c1'', cfg_model_id = Some ''model:m1''\<rparr>)) =
     [\<lparr>pa_content = rt_str_payload example_runtime (payload_of example_runtime example_state),
       pa_model_id = Some ''model:m1'', pa_default_type = ''chat'', pa_max_tokens = 8192\<rparr>] \<and>
   snd (call_model_with_messages example_runtime example_state
          \<lparr>cfg_thread_id = ''chat_session:c1'', cfg_model_id = Some ''model:m1''\<rparr>) =
     Inr example_ai_message \<and>
   snd (call_model_with_messages (example_runtime\<lparr>rt_loop_running := False\<rparr>) example_state
          \<lparr>cfg_thread_id = ''chat_session:c1'', cfg_model_id = Some ''model:m1''\<rparr>) =
     Inr example_ai_message"
proof -
  let ?cfg = "\<lparr>cfg_thread_id = ''chat_session:c1'', cfg_model_id = Some ''model:m1''\<rparr>"
  have len: "length (fst (call_model_with_messages example_runtime example_state ?cfg)) = 1"
    by (simp add: call_model_with_messages_def provision_model_def example_runtime_def Let_def
        example_ai_message_def)
  have mid: "resolve_model_id ?cfg example_state = Some ''model:m1''"
    by (simp add: resolve_model_id_def py_or_def)
  have ok: "\<forall>m. rt_provision_langchain_model example_runtime
            (run_in_new_loop_args example_runtime (payload_of example_runtime example_state)
               (resolve_model_id ?cfg example_state))
          \<noteq> Inl (RuntimeError m)"
    by (simp add: example_runtime_def)
  have res: "(case rt_provision_langchain_model example_runtime
                (asyncio_run_args example_runtime (payload_of example_runtime example_state)
                   (resolve_model_id ?cfg example_state)) of
           Inl e \<Rightarrow> Inl e
         | Inr model \<Rightarrow>
             (case model (payload_of example_runtime example_state) of
                Inl e \<Rightarrow> Inl e
              | Inr ai_message \<Rightarrow>
                  (case msg_content ai_message of
                     None \<Rightarrow> Inl (OtherError ''AttributeError: content'')
                   | Some content \<Rightarrow>
                       Inr (ai_message\<lparr>msg_content :=
                              Some (rt_clean_thinking_content example_runtime content)\<rparr>))))
        = Inr example_ai_message"
    by (simp add: example_runtime_def example_ai_message_def)
  have t: "example_runtime\<lparr>rt_loop_running := True\<rparr> = example_runtime"
    by (simp add: example_runtime_def)
  from len obtain c where c: "fst (call_model_with_messages example_runtime example_state ?cfg) = [c]"
    by (cases "fst (call_model_with_messages example_runtime example_state ?cfg)") auto
  note T = provisioning_calls_agree [of example_runtime "[]" None example_state ?cfg]
  note results = T [THEN conjunct2, THEN conjunct2, THEN conjunct2, THEN conjunct2,
      THEN conjunct2, THEN conjunct1, THEN mp, OF ok]
  note args = T [THEN conjunct2, THEN conjunct2, THEN conjunct2, THEN conjunct2,
      THEN conjunct2, THEN conjunct2, THEN conjunct2, THEN conjunct1]
  have 1: "map pc_args (fst (call_model_with_messages example_runtime example_state ?cfg)) =
     [\<lparr>pa_content = rt_str_payload example_runtime (payload_of example_runtime example_state),
       pa_model_id = Some ''model:m1'', pa_default_type = ''chat'', pa_max_tokens = 8192\<rparr>]"
    using args c mid by simp
  have 2: "snd (call_model_with_messages example_runtime example_state ?cfg) = Inr example_ai_message"
    using results [THEN conjunct2] res by simp
  have 3: "snd (call_model_with_messages (example_runtime\<lparr>rt_loop_running := False\<rparr>)
             example_state ?cfg) = Inr example_ai_message"
    using results [THEN conjunct1] 2 t by simp
  from 1 2 3 show ?thesis by simp
qed

text \<open>What a successful preparation of \<open>execute_chat\<close> has read and chosen.\<close>

lemma execute_chat_prepare_fields:
  assumes "execute_chat_prepare db cp request = Inr (session, st, cfg)"
  shows "chat_session_tbl db (full_session_id (ecr_session_id request)) = Some session"
    and "ts_model_override st =
           (case ecr_model_override request of Some m \<Rightarrow> Some m | None \<Rightarrow> cs_model_override session)"
    and "cfg_model_id cfg = ts_model_override st"
    and "cfg_thread_id cfg = ecr_session_id request"
    and "resolve_custom_system_prompt db request
           (session_notebook_id db (ecr_session_id request)) = Inr (ts_custom_system_prompt st)"
  using assms
  by (auto simp add: execute_chat_prepare_def Let_def ChatSession_get_def ObjectModel_get_def
      session_notebook_id_def ensure_record_id_def split: sum.splits option.splits)

lemma py_or_same: "py_or a a = a"
  by (simp add: py_or_def)

lemma call_model_calls_model_id:
  "fst (call_model_with_messages rt st cfg) \<noteq> [] \<and>
   (\<forall>c \<in> set (fst (call_model_with_messages rt st cfg)).
      pa_model_id (pc_args c) = resolve_model_id cfg st)"
  by (auto simp add: run_in_new_loop_args_def asyncio_run_args_def call_model_with_messages_def
      provision_model_def payload_of_def Let_def
      split: sum.splits exn.splits option.splits prod.splits if_splits)

lemma graph_input_state_fields:
  "ts_model_override (fst (graph_input_state rt cp st cfg)) = ts_model_override st"
  "ts_custom_system_prompt (fst (graph_input_state rt cp st cfg)) = ts_custom_system_prompt st"
  "ts_context (fst (graph_input_state rt cp st cfg)) = ts_context st"
  "ts_include_citations (fst (graph_input_state rt cp st cfg)) = ts_include_citations st"
  by (simp_all add: graph_input_state_def Let_def split: prod.splits)

lemma chat_graph_invoke_calls:
  "fst (chat_graph_invoke rt cp st cfg) =
     fst (call_model_with_messages rt (fst (graph_input_state rt cp st cfg)) cfg)"
  by (simp add: chat_graph_invoke_def Let_def split: prod.splits sum.splits)

lemma execute_chat_calls:
  assumes "execute_chat_prepare db cp request = Inr (session, st, cfg)"
  shows "fst (execute_chat env rt db cp request) =
           fst (call_model_with_messages rt (fst (graph_input_state rt cp st cfg)) cfg)"
proof -
  have "fst (execute_chat env rt db cp request) = fst (chat_graph_invoke rt cp st cfg)"
    using assms
    by (simp add: execute_chat_def execute_chat_body_def Let_def split: sum.splits prod.splits)
  then show ?thesis
    by (simp only: chat_graph_invoke_calls)
qed

text \<open>
  C1 (as the code has it). For every chat execution that reaches the graph, the model id
  handed to \<open>provision_langchain_model\<close> is the request's \<open>model_override\<close> when it is not
  \<open>None\<close> and otherwise the session's stored \<open>model_override\<close>; every provisioning call of the
  execution carries that id, and at least one call is made. When neither override is set the
  id is \<open>None\<close> and the choice of the model is left to \<open>provision_langchain_model\<close>; the
  notebook and its active prompt take no part.
\<close>

theorem model_override_chain:
  assumes "execute_chat_prepare db cp request = Inr (session, st, cfg)"
  shows "chat_session_tbl db (full_session_id (ecr_session_id request)) = Some session \<and>
         resolve_model_id cfg st =
           (case ecr_model_override request of
              Some m \<Rightarrow> Some m | None \<Rightarrow> cs_model_override session) \<and>
         fst (execute_chat env rt db cp request) \<noteq> [] \<and>
         (\<forall>c \<in> set (fst (execute_chat env rt db cp request)).
            pa_model_id (pc_args c) =
              (case ecr_model_override request of
                 Some m \<Rightarrow> Some m | None \<Rightarrow> cs_model_override session))"
proof -
  have r: "resolve_model_id cfg st =
      (case ecr_model_override request of Some m \<Rightarrow> Some m | None \<Rightarrow> cs_model_override session)"
    using execute_chat_prepare_fields(2,3)[OF assms] by (simp add: resolve_model_id_def py_or_same)
  have r': "resolve_model_id cfg (fst (graph_input_state rt cp st cfg)) = resolve_model_id cfg st"
    by (simp add: resolve_model_id_def graph_input_state_fields)
  show ?thesis
    using execute_chat_prepare_fields(1)[OF assms] r r'
      call_model_calls_model_id[of rt "fst (graph_input_state rt cp st cfg)" cfg]
      execute_chat_calls[OF assms, of env rt]
    by simp
qed

lemma example_prepare:
  "execute_chat_prepare db_chat example_checkpoints example_request =
     Inr (example_session,
          \<lparr>ts_messages = [example_ai_message, HumanMessage ''Hello''],
           ts_context = Some \<lparr>ctx_sources = Some [], ctx_notes = Some []\<rparr>,
           ts_model_override = None,
           ts_custom_system_prompt = Some ''Be a pirate.'',
           ts_include_citations = Some (Some False)\<rparr>,
          \<lparr>cfg_thread_id = ''chat_session:abc'', cfg_model_id = None\<rparr>)"
  by (simp add: execute_chat_prepare_def db_chat_def db_orphan_session_def example_request_def
      example_checkpoints_def full_session_id_def startswith_def ChatSession_get_def
      ObjectModel_get_def Let_def select_out_where_in_def ensure_record_id_def
      resolve_custom_system_prompt_def Notebook_get_def SystemPrompt_get_def example_prompt_def
      get_state_def example_session_def)

theorem model_override_chain_witness:
  "map (\<lambda>c. pa_model_id (pc_args c))
     (fst (execute_chat example_env example_runtime db_chat example_checkpoints
             (example_request\<lparr>ecr_model_override := Some ''model:m2''\<rparr>)))
   = [Some ''model:m2'']"
proof -
  let ?req = "example_request\<lparr>ecr_model_override := Some ''model:m2''\<rparr>"
  let ?st = "\<lparr>ts_messages = [example_ai_message, HumanMessage ''Hello''],
           ts_context = Some \<lparr>ctx_sources = Some [], ctx_notes = Some []\<rparr>,
           ts_model_override = Some ''model:m2'',
           ts_custom_system_prompt = Some ''Be a pirate.'',
           ts_include_citations = Some (Some False)\<rparr>"
  let ?cfg = "\<lparr>cfg_thread_id = ''chat_session:abc'', cfg_model_id = Some ''model:m2''\<rparr>"
  have p: "execute_chat_prepare db_chat example_checkpoints ?req = Inr (example_session, ?st, ?cfg)"
    by (simp add: execute_chat_prepare_def db_chat_def db_orphan_session_def example_request_def
      example_checkpoints_def full_session_id_def startswith_def ChatSession_get_def
      ObjectModel_get_def Let_def select_out_where_in_def ensure_record_id_def
      resolve_custom_system_prompt_def Notebook_get_def SystemPrompt_get_def example_prompt_def
      get_state_def example_session_def)
  have len: "length (fst (execute_chat example_env example_runtime db_chat example_checkpoints ?req)) = 1"
    unfolding execute_chat_calls[OF p]
    by (simp add: call_model_with_messages_def provision_model_def example_runtime_def Let_def
        example_ai_message_def)
  then obtain c where c:
    "fst (execute_chat example_env example_runtime db_chat example_checkpoints ?req) = [c]"
    by (cases "fst (execute_chat example_env example_runtime db_chat example_checkpoints ?req)") auto
  from model_override_chain [OF p, of example_env example_runtime] c
  show ?thesis by (simp add: example_request_def)
qed

text \<open>
  C1 as stated fails: with no override on the request or on the session, the execution for a
  notebook that has an active prompt provisions with no model id at all, where the stated
  chain would select the model of the active prompt (or, without one, the notebook's
  default model).
\<close>

theorem model_override_chain_counterexample:
  "nb_active_prompt_id (the (notebook_tbl db_chat ''notebook:n1'')) = Some ''system_prompt:p2'' \<and>
   map (\<lambda>c. pa_model_id (pc_args c))
     (fst (execute_chat example_env example_runtime db_chat example_checkpoints example_request))
     = [None] \<and>
   spec_model_chain (ecr_model_override example_request) (cs_model_override example_session)
     (Some ''model:of_active_prompt'') ''model:notebook_default'' = ''model:of_active_prompt''"
proof -
  have m: "map (\<lambda>c. pa_model_id (pc_args c))
     (fst (execute_chat example_env example_runtime db_chat example_checkpoints example_request))
     = [None]"
    unfolding execute_chat_calls [OF example_prepare]
    by (simp add: call_model_with_messages_def provision_model_def example_runtime_def Let_def
        resolve_model_id_def py_or_def run_in_new_loop_args_def graph_input_state_fields
        example_ai_message_def)
  have a: "nb_active_prompt_id (the (notebook_tbl db_chat ''notebook:n1'')) = Some ''system_prompt:p2''"
    by (simp add: db_chat_def db_orphan_session_def)
  have c: "spec_model_chain (ecr_model_override example_request) (cs_model_override example_session)
     (Some ''model:of_active_prompt'') ''model:notebook_default'' = ''model:of_active_prompt''"
    by (simp add: spec_model_chain_def example_request_def example_session_def)
  from a m c show ?thesis by simp
qed

text \<open>
  The three steps of the prompt resolution, read against the stored prompts.
\<close>

lemma specified_prompt_content_code:
  "(if truthy (ecr_prompt_id request)
    then (case SystemPrompt_get db (dict_get (ecr_prompt_id request) []) of
            Inr (Some specified_prompt) \<Rightarrow> Some (sp_content specified_prompt)
          | _ \<Rightarrow> None)
    else None) = specified_prompt_content db request"
  by (cases "ecr_prompt_id request")
     (simp_all add: specified_prompt_content_def SystemPrompt_get_def ObjectModel_get_def
        split: option.splits)

lemma resolve_custom_system_prompt_steps:
  assumes "notebook_tbl db nid = Some notebook"
  shows "resolve_custom_system_prompt db request (Some nid) =
     (case (if \<not> truthy (specified_prompt_content db request) \<and>
               truthy (nb_active_prompt_id notebook)
            then (case get_active_prompt db notebook of
                    Inl e \<Rightarrow> Inl e
                  | Inr (Some active_prompt) \<Rightarrow> Inr (Some (sp_content active_prompt))
                  | Inr None \<Rightarrow> Inr (specified_prompt_content db request))
            else Inr (specified_prompt_content db request)) of
        Inl e \<Rightarrow> Inl e
      | Inr c2 \<Rightarrow>
          Inr (if \<not> truthy c2 \<and> truthy (nb_custom_system_prompt notebook)
               then nb_custom_system_prompt notebook else c2))"
  using assms
  by (simp add: resolve_custom_system_prompt_def Notebook_get_def ObjectModel_get_def
      specified_prompt_content_code Let_def del: truthy.simps)

lemma resolve_with_notebook:
  assumes nb: "notebook_tbl db nid = Some notebook"
    and ok: "resolve_custom_system_prompt db request (Some nid) = Inr c"
  shows "c = prompt_priority (specified_prompt_content db request)
               (active_prompt_content db notebook) (nb_custom_system_prompt notebook)"
proof -
  let ?s = "specified_prompt_content db request"
  let ?a = "active_prompt_content db notebook"
  let ?l = "nb_custom_system_prompt notebook"
  note steps = resolve_custom_system_prompt_steps [OF nb, of request]
  show ?thesis
  proof (cases "truthy ?s")
    case True
    with ok steps show ?thesis
      by (auto simp add: prompt_priority_def simp del: truthy.simps split: if_splits)
  next
    case s: False
    show ?thesis
    proof (cases "nb_active_prompt_id notebook")
      case None
      then have a: "?a = None"
        by (simp add: active_prompt_content_def)
      from None s ok steps show ?thesis
        by (simp add: prompt_priority_def a del: truthy.simps) (auto split: if_splits)
    next
      case (Some pid)
      show ?thesis
      proof (cases "pid = []")
        case True
        with Some have a: "?a = None"
          by (simp add: active_prompt_content_def)
        from Some True s ok steps show ?thesis
          by (simp add: prompt_priority_def a del: truthy.simps) (auto split: if_splits)
      next
        case pid: False
        show ?thesis
        proof (cases "system_prompt_tbl db pid")
          case None
          with Some pid s have "resolve_custom_system_prompt db request (Some nid) =
              Inl (NotFoundError (''Object with id '' @ pid @ '' not found''))"
            unfolding steps
            by (simp add: get_active_prompt_def SystemPrompt_get_def ObjectModel_get_def)
          with ok show ?thesis by simp
        next
          case (Some p)
          with \<open>nb_active_prompt_id notebook = Some pid\<close> pid
          have a: "?a = Some (sp_content p)"
            by (simp add: active_prompt_content_def)
          from Some \<open>nb_active_prompt_id notebook = Some pid\<close> pid s
          have "resolve_custom_system_prompt db request (Some nid) =
              Inr (if \<not> truthy (Some (sp_content p)) \<and> truthy ?l then ?l
                   else Some (sp_content p))"
            unfolding steps
            by (simp add: get_active_prompt_def SystemPrompt_get_def ObjectModel_get_def
                del: truthy.simps, simp)
          with ok s show ?thesis
            by (simp add: prompt_priority_def a del: truthy.simps) (auto split: if_splits)
        qed
      qed
    qed
  qed
qed

lemma active_prompt_empty_content:
  "active_prompt_empty db notebook \<Longrightarrow> \<not> truthy (active_prompt_content db notebook)"
  by (cases "nb_active_prompt_id notebook")
     (auto simp add: active_prompt_empty_def active_prompt_content_def split: option.splits)

lemma prompt_priority_cases:
  "truthy s \<Longrightarrow> prompt_priority s a l = s"
  "\<not> truthy s \<Longrightarrow> truthy a \<Longrightarrow> prompt_priority s a l = a"
  "\<not> truthy s \<Longrightarrow> \<not> truthy a \<Longrightarrow> truthy l \<Longrightarrow> prompt_priority s a l = l"
  "\<not> truthy s \<Longrightarrow> \<not> truthy a \<Longrightarrow> \<not> truthy l \<Longrightarrow> \<not> truthy (prompt_priority s a l)"
  by (cases a; simp add: prompt_priority_def)+

text \<open>
  C8 (as the code has it). For every \<open>execute_chat\<close> request that reaches the graph: when
  the session is related to no notebook, no custom prompt is passed; when it is related to a
  notebook that is stored, the custom prompt is the content of the prompt named by
  \<open>request.prompt_id\<close> when that prompt loads and its content is not empty, otherwise the
  content of the notebook's active prompt when \<open>active_prompt_id\<close> is set and the prompt
  loads with a content that is not empty, otherwise, when the notebook has no
  \<open>active_prompt_id\<close> or its active prompt loads with an empty content, the notebook's legacy
  \<open>custom_system_prompt\<close> when it is not empty, and otherwise no usable custom prompt (\<open>None\<close>
  or the empty string, for which the graph takes its default template).
\<close>

theorem custom_prompt_priority:
  assumes "execute_chat_prepare db cp request = Inr (session, st, cfg)"
  shows "(session_notebook_id db (ecr_session_id request) = None \<longrightarrow>
            ts_custom_system_prompt st = None) \<and>
         (\<forall>nid notebook.
            session_notebook_id db (ecr_session_id request) = Some nid \<and>
            notebook_tbl db nid = Some notebook \<longrightarrow>
              (truthy (specified_prompt_content db request) \<longrightarrow>
                 ts_custom_system_prompt st = specified_prompt_content db request) \<and>
              (\<not> truthy (specified_prompt_content db request) \<and>
               truthy (active_prompt_content db notebook) \<longrightarrow>
                 ts_custom_system_prompt st = active_prompt_content db notebook) \<and>
              (\<not> truthy (specified_prompt_content db request) \<and>
               active_prompt_empty db notebook \<and>
               truthy (nb_custom_system_prompt notebook) \<longrightarrow>
                 ts_custom_system_prompt st = nb_custom_system_prompt notebook) \<and>
              (\<not> truthy (specified_prompt_content db request) \<and>
               active_prompt_empty db notebook \<and>
               \<not> truthy (nb_custom_system_prompt notebook) \<longrightarrow>
                 \<not> truthy (ts_custom_system_prompt st)))"
proof (intro conjI impI allI)
  note r = execute_chat_prepare_fields(5)[OF assms]
  {
    assume "session_notebook_id db (ecr_session_id request) = None"
    with r show "ts_custom_system_prompt st = None"
      by (simp add: resolve_custom_system_prompt_def)
  }
  {
    fix nid notebook
    assume h: "session_notebook_id db (ecr_session_id request) = Some nid \<and>
               notebook_tbl db nid = Some notebook"
    then have c: "ts_custom_system_prompt st =
        prompt_priority (specified_prompt_content db request) (active_prompt_content db notebook)
          (nb_custom_system_prompt notebook)"
      using r resolve_with_notebook [of db nid notebook request "ts_custom_system_prompt st"]
      by simp
    {
      assume "truthy (specified_prompt_content db request)"
      then show "ts_custom_system_prompt st = specified_prompt_content db request"
        unfolding c by (rule prompt_priority_cases(1))
    }
    {
      assume "\<not> truthy (specified_prompt_content db request) \<and>
               truthy (active_prompt_content db notebook)"
      then show "ts_custom_system_prompt st = active_prompt_content db notebook"
        unfolding c by (simp add: prompt_priority_cases(2) del: truthy.simps)
    }
    {
      assume "\<not> truthy (specified_prompt_content db request) \<and>
               active_prompt_empty db notebook \<and>
               truthy (nb_custom_system_prompt notebook)"
      then show "ts_custom_system_prompt st = nb_custom_system_prompt notebook"
        unfolding c
        by (simp add: prompt_priority_cases(3) active_prompt_empty_content del: truthy.simps)
    }
    {
      assume "\<not> truthy (specified_prompt_content db request) \<and>
               active_prompt_empty db notebook \<and>
               \<not> truthy (nb_custom_system_prompt notebook)"
      then show "\<not> truthy (ts_custom_system_prompt st)"
        unfolding c
        by (simp add: prompt_priority_cases(4) active_prompt_empty_content del: truthy.simps)
    }
  }
qed

theorem custom_prompt_priority_witness:
  "\<exists>session st cfg.
     execute_chat_prepare db_chat example_checkpoints example_request = Inr (session, st, cfg) \<and>
     session_notebook_id db_chat (ecr_session_id example_request) = Some ''notebook:n1'' \<and>
     specified_prompt_content db_chat example_request = Some ''Be a pirate.'' \<and>
     ts_custom_system_prompt st = Some ''Be a pirate.''"
proof -
  have n: "session_notebook_id db_chat (ecr_session_id example_request) = Some ''notebook:n1''"
    by (simp add: session_notebook_id_def db_chat_def db_orphan_session_def example_request_def
        full_session_id_def startswith_def select_out_where_in_def)
  have t: "notebook_tbl db_chat ''notebook:n1'' =
             Some (example_notebook\<lparr>nb_active_prompt_id := Some ''system_prompt:p2''\<rparr>)"
    by (simp add: db_chat_def db_orphan_session_def)
  have s: "specified_prompt_content db_chat example_request = Some ''Be a pirate.''"
    by (simp add: specified_prompt_content_def db_chat_def db_orphan_session_def
        example_request_def example_prompt_def)
  from custom_prompt_priority [OF example_prepare] n t s
  have "ts_custom_system_prompt
          \<lparr>ts_messages = [example_ai_message, HumanMessage ''Hello''],
           ts_context = Some \<lparr>ctx_sources = Some [], ctx_notes = Some []\<rparr>,
           ts_model_override = None,
           ts_custom_system_prompt = Some ''Be a pirate.'',
           ts_include_citations = Some (Some False)\<rparr> = Some ''Be a pirate.''"
    by simp
  with example_prepare n s show ?thesis by blast
qed

text \<open>
  C8 as stated fails in two places. A session without a \<open>refers_to\<close> edge gets no custom
  prompt although the prompt named by \<open>request.prompt_id\<close> loads; and a prompt that loads with
  an empty content gives way to the notebook's active prompt.
\<close>

theorem custom_prompt_priority_counterexample:
  "specified_prompt_content db_orphan_session example_request = Some ''Be a pirate.'' \<and>
   map_sum id (\<lambda>(session, st, cfg). ts_custom_system_prompt st)
     (execute_chat_prepare db_orphan_session example_checkpoints example_request) = Inr None \<and>
   specified_prompt_content db_chat (example_request\<lparr>ecr_prompt_id := Some ''system_prompt:p3''\<rparr>)
     = Some [] \<and>
   map_sum id (\<lambda>(session, st, cfg). ts_custom_system_prompt st)
     (execute_chat_prepare db_chat example_checkpoints
        (example_request\<lparr>ecr_prompt_id := Some ''system_prompt:p3''\<rparr>))
     = Inr (Some ''Be a teacher.'')"
  by (simp add: execute_chat_prepare_def db_chat_def db_orphan_session_def example_request_def
      example_checkpoints_def full_session_id_def startswith_def ChatSession_get_def
      ObjectModel_get_def Let_def select_out_where_in_def ensure_record_id_def
      resolve_custom_system_prompt_def Notebook_get_def SystemPrompt_get_def example_prompt_def
      get_state_def example_session_def specified_prompt_content_def example_empty_prompt_def
      example_active_prompt_def example_notebook_def get_active_prompt_def)

text \<open>
  The chat handlers read the session id only through \<open>full_session_id\<close>, except where they
  address the checkpointed thread and where \<open>execute_chat\<close> echoes the id.
\<close>

lemma full_session_id_prefixed:
  "full_session_id (''chat_session:'' @ sid) = ''chat_session:'' @ sid"
  by (simp add: full_session_id_def startswith_def)

lemma full_session_id_unprefixed:
  "\<not> startswith sid ''chat_session:'' \<Longrightarrow> full_session_id sid = ''chat_session:'' @ sid"
  by (simp add: full_session_id_def)

lemma full_session_id_same:
  "\<not> startswith sid ''chat_session:'' \<Longrightarrow>
     full_session_id (''chat_session:'' @ sid) = full_session_id sid"
  using full_session_id_prefixed [of sid] full_session_id_unprefixed [of sid] by simp

lemma update_session_same:
  assumes "full_session_id a = full_session_id b"
  shows "update_session env db a req = update_session env db b req"
  unfolding update_session_def update_session_body_def assms ..

lemma delete_session_same:
  assumes "full_session_id a = full_session_id b"
  shows "delete_session db a = delete_session db b"
  unfolding delete_session_def delete_session_body_def assms ..

lemma get_session_body_cases:
  "get_session_body env db cp sid =
     (case ChatSession_get db (full_session_id sid) of
        Inl e \<Rightarrow> Inl e
      | Inr None \<Rightarrow> Inl (HTTPException 404 ''Session not found'')
      | Inr (Some session) \<Rightarrow>
          Inr \<lparr>r_id = or_str (cs_id session) [],
               r_title = or_str (cs_title session) ''Untitled Session'',
               r_notebook_id = session_notebook_id db sid,
               r_created = str_opt (cs_created session),
               r_updated = str_opt (cs_updated session),
               r_message_count =
                 Some (length (case cp sid of
                                 Some values \<Rightarrow> to_chat_messages (env_now env) (ts_messages values) []
                               | None \<Rightarrow> [])),
               r_model_override = cs_model_override session,
               r_messages = (case cp sid of
                               Some values \<Rightarrow> to_chat_messages (env_now env) (ts_messages values) []
                             | None \<Rightarrow> [])\<rparr>)"
  by (simp add: get_session_body_def Let_def get_state_def session_notebook_id_def
      ensure_record_id_def split: sum.splits option.splits)

lemma session_notebook_id_same:
  assumes "full_session_id a = full_session_id b"
  shows "session_notebook_id db a = session_notebook_id db b"
  unfolding session_notebook_id_def assms ..

lemma get_session_same_thread:
  assumes "full_session_id a = full_session_id b" and "cp a = cp b"
  shows "get_session env db cp a = get_session env db cp b"
  unfolding get_session_def get_session_body_cases assms(1)
    session_notebook_id_same [OF assms(1)] assms(2) ..

lemma get_session_without_messages:
  assumes "full_session_id a = full_session_id b"
  shows "without_messages (get_session env db cp a) = without_messages (get_session env db cp b)"
proof (cases "ChatSession_get db (full_session_id b)")
  case (Inl e)
  then show ?thesis
    unfolding get_session_def get_session_body_cases assms
    by simp
next
  case (Inr s)
  then show ?thesis
    unfolding get_session_def get_session_body_cases assms
      session_notebook_id_same [OF assms] without_messages_def
    by (cases s) simp_all
qed

lemma resolve_ignores_session_id:
  "resolve_custom_system_prompt db (request\<lparr>ecr_session_id := x\<rparr>) nb =
   resolve_custom_system_prompt db request nb"
  by (simp add: resolve_custom_system_prompt_def cong: option.case_cong sum.case_cong if_cong)

lemma execute_chat_prepare_cases:
  "execute_chat_prepare db cp request =
     (case ChatSession_get db (full_session_id (ecr_session_id request)) of
        Inl e \<Rightarrow> Inl e
      | Inr None \<Rightarrow> Inl (HTTPException 404 ''Session not found'')
      | Inr (Some session) \<Rightarrow>
          (case resolve_custom_system_prompt db request
                  (session_notebook_id db (ecr_session_id request)) of
             Inl e \<Rightarrow> Inl e
           | Inr custom_system_prompt \<Rightarrow>
               Inr (session,
                    \<lparr>ts_messages =
                       (case cp (ecr_session_id request) of
                          Some values \<Rightarrow> ts_messages values | None \<Rightarrow> [])
                       @ [HumanMessage (ecr_message request)],
                     ts_context = Some (ecr_context request),
                     ts_model_override =
                       (case ecr_model_override request of
                          Some m \<Rightarrow> Some m | None \<Rightarrow> cs_model_override session),
                     ts_custom_system_prompt = custom_system_prompt,
                     ts_include_citations = Some (Some (ecr_include_citations request))\<rparr>,
                    \<lparr>cfg_thread_id = ecr_session_id request,
                     cfg_model_id =
                       (case ecr_model_override request of
                          Some m \<Rightarrow> Some m | None \<Rightarrow> cs_model_override session)\<rparr>)))"
  by (simp add: execute_chat_prepare_def Let_def get_state_def session_notebook_id_def
      ensure_record_id_def split: sum.splits option.splits)

lemma resolved_settings_same:
  assumes "full_session_id a = full_session_id b"
  shows "resolved_settings (execute_chat_prepare db cp (request\<lparr>ecr_session_id := a\<rparr>)) =
         resolved_settings (execute_chat_prepare db cp (request\<lparr>ecr_session_id := b\<rparr>))"
proof (cases "ChatSession_get db (full_session_id b)")
  case (Inl e)
  then show ?thesis
    unfolding execute_chat_prepare_cases
    by (simp add: assms)
next
  case (Inr s)
  show ?thesis
  proof (cases s)
    case None
    with Inr show ?thesis
      unfolding execute_chat_prepare_cases
      by (simp add: assms)
  next
    case (Some session)
    show ?thesis
    proof (cases "resolve_custom_system_prompt db request (session_notebook_id db b)")
      case (Inl e)
      with Inr Some show ?thesis
        unfolding execute_chat_prepare_cases
        by (simp add: assms session_notebook_id_same [OF assms] resolve_ignores_session_id)
    next
      case r: (Inr c)
      with Inr Some show ?thesis
        unfolding execute_chat_prepare_cases
        by (simp add: assms session_notebook_id_same [OF assms] resolve_ignores_session_id
            resolved_settings_def)
    qed
  qed
qed

lemma execute_chat_prepare_thread:
  assumes "execute_chat_prepare db cp request = Inr (session, st, cfg)"
  shows "cfg_thread_id cfg = ecr_session_id request"
    and "ts_messages st =
       (case cp (ecr_session_id request) of Some v \<Rightarrow> ts_messages v | None \<Rightarrow> [])
        @ [HumanMessage (ecr_message request)]"
  using assms unfolding execute_chat_prepare_cases
  by (auto split: sum.splits option.splits)

lemma execute_chat_echo:
  "fst (snd (execute_chat env rt db cp request)) = Inr resp \<Longrightarrow>
     er_session_id resp = ecr_session_id request"
  by (auto simp add: execute_chat_def execute_chat_body_def Let_def split: sum.splits prod.splits)

text \<open>
  C10 (as the code has it). For an identifier \<open>sid\<close> that lacks the table prefix:
  \<open>update_session\<close> and \<open>delete_session\<close> behave identically for \<open>sid\<close> and for the prefixed
  identifier; \<open>get_session\<close> finds the same session and notebook for both, so the two
  responses agree in every field but the message list and its count, and agree in these too
  when the checkpointer holds the same state under both thread ids; \<open>execute_chat\<close> resolves
  the same session, model override, custom prompt, context and citation flag for both. The
  checkpointed thread is addressed by the identifier as it was given, which \<open>execute_chat\<close>
  also echoes in its response.
\<close>

theorem session_prefix_normalised:
  assumes "\<not> startswith sid ''chat_session:''"
  shows "update_session env db (''chat_session:'' @ sid) ureq = update_session env db sid ureq \<and>
         delete_session db (''chat_session:'' @ sid) = delete_session db sid \<and>
         without_messages (get_session env db cp (''chat_session:'' @ sid)) =
           without_messages (get_session env db cp sid) \<and>
         (cp (''chat_session:'' @ sid) = cp sid \<longrightarrow>
            get_session env db cp (''chat_session:'' @ sid) = get_session env db cp sid) \<and>
         resolved_settings
           (execute_chat_prepare db cp (request\<lparr>ecr_session_id := ''chat_session:'' @ sid\<rparr>)) =
         resolved_settings (execute_chat_prepare db cp (request\<lparr>ecr_session_id := sid\<rparr>)) \<and>
         (\<forall>session st cfg.
            execute_chat_prepare db cp request = Inr (session, st, cfg) \<longrightarrow>
              cfg_thread_id cfg = ecr_session_id request \<and>
              ts_messages st =
                (case cp (ecr_session_id request) of Some v \<Rightarrow> ts_messages v | None \<Rightarrow> [])
                @ [HumanMessage (ecr_message request)]) \<and>
         (\<forall>resp. fst (snd (execute_chat env rt db cp request)) = Inr resp \<longrightarrow>
            er_session_id resp = ecr_session_id request)"
proof -
  note f = full_session_id_same [OF assms]
  show ?thesis
    using update_session_same [OF f, of env db ureq] delete_session_same [OF f, of db]
      get_session_without_messages [OF f, of env db cp]
      get_session_same_thread [OF f, of cp env db]
      resolved_settings_same [OF f, of db cp request]
      execute_chat_prepare_thread [of db cp request]
      execute_chat_echo [of env rt db cp request]
    by blast
qed

theorem session_prefix_normalised_witness:
  "\<not> startswith ''abc'' ''chat_session:'' \<and>
   without_messages (get_session example_env db_chat example_checkpoints ''abc'') =
     Inr \<lparr>r_id = ''chat_session:abc'', r_title = ''Talk'', r_notebook_id = Some ''notebook:n1'',
          r_created = ''2024-12-31T00:00:00Z'', r_updated = ''2024-12-31T00:00:00Z'',
          r_message_count = None, r_model_override = None, r_messages = []\<rparr>"
proof -
  have n: "\<not> startswith ''abc'' ''chat_session:''"
    by (simp add: startswith_def)
  have "without_messages (get_session example_env db_chat example_checkpoints (''chat_session:'' @ ''abc'')) =
     Inr \<lparr>r_id = ''chat_session:abc'', r_title = ''Talk'', r_notebook_id = Some ''notebook:n1'',
          r_created = ''2024-12-31T00:00:00Z'', r_updated = ''2024-12-31T00:00:00Z'',
          r_message_count = None, r_model_override = None, r_messages = []\<rparr>"
    by (simp add: get_session_def get_session_body_cases full_session_id_def startswith_def
      db_chat_def db_orphan_session_def ChatSession_get_def ObjectModel_get_def
      example_checkpoints_def example_session_def without_messages_def session_notebook_id_def
      select_out_where_in_def)
  with session_prefix_normalised [OF n, of example_env db_chat "\<lparr>usr_title = Some (Some ''Renamed''), usr_model_override = None\<rparr>" example_checkpoints
      example_request example_runtime] n
  show ?thesis by simp
qed

text \<open>
  C10 as stated fails: the thread of the session is checkpointed under the prefixed
  identifier, and \<open>get_session\<close> called with the identifier without the prefix finds the
  session but reads another thread, so the two calls return different message lists.
\<close>

theorem session_prefix_counterexample:
  "\<not> startswith ''abc'' ''chat_session:'' \<and>
   get_session example_env db_chat example_checkpoints ''abc'' \<noteq>
   get_session example_env db_chat example_checkpoints (''chat_session:'' @ ''abc'')"
  by (simp add: get_session_def get_session_body_cases full_session_id_def startswith_def
      db_chat_def db_orphan_session_def ChatSession_get_def ObjectModel_get_def
      example_checkpoints_def example_session_def)

text \<open>
  C7. Every chat session is associated with a notebook. For every \<open>create_session\<close> request:
  when the referenced notebook is not stored, the endpoint fails with HTTP 404 and the
  database is unchanged, so no session is created; otherwise a new \<open>ChatSession\<close> with the
  requested model override is saved under a fresh id of the table \<open>chat_session\<close>, one
  \<open>refers_to\<close> edge from that session to the notebook is added, and the response carries the
  new session's id and the requested \<open>notebook_id\<close>.
\<close>

theorem create_session_notebook:
  "(notebook_tbl db (csr_notebook_id request) = None \<longrightarrow>
      create_session env db request = (Inl (HTTPException 404 ''Notebook not found''), db)) \<and>
   (notebook_tbl db (csr_notebook_id request) \<noteq> None \<longrightarrow>
      (\<exists>resp db' session.
         create_session env db request = (Inr resp, db') \<and>
         r_notebook_id resp = Some (csr_notebook_id request) \<and>
         r_id resp = ''chat_session:'' @ env_new_key env \<and>
         chat_session_tbl db' (''chat_session:'' @ env_new_key env) = Some session \<and>
         cs_id session = Some (''chat_session:'' @ env_new_key env) \<and>
         cs_model_override session = csr_model_override request \<and>
         refers_to db' =
           refers_to db @ [\<lparr>edge_in = ''chat_session:'' @ env_new_key env,
                            edge_out = csr_notebook_id request\<rparr>] \<and>
         notebook_tbl db' = notebook_tbl db))"
proof (intro conjI impI)
  assume "notebook_tbl db (csr_notebook_id request) = None"
  then show "create_session env db request = (Inl (HTTPException 404 ''Notebook not found''), db)"
    by (simp add: create_session_def create_session_body_def Notebook_get_def ObjectModel_get_def)
next
  assume "notebook_tbl db (csr_notebook_id request) \<noteq> None"
  then obtain nb where nb: "notebook_tbl db (csr_notebook_id request) = Some nb"
    by auto
  let ?i = "''chat_session:'' @ env_new_key env"
  let ?s = "\<lparr>cs_id = Some ?i,
             cs_title = Some (or_str (csr_title request) (''Chat Session '' @ env_loop_time env)),
             cs_model_override = csr_model_override request,
             cs_created = Some (env_db_time env), cs_updated = Some (env_db_time env)\<rparr>"
  let ?db1 = "db\<lparr>chat_session_tbl := (chat_session_tbl db)(?i \<mapsto> ?s)\<rparr>"
  let ?db2 = "?db1\<lparr>refers_to := refers_to db @ [\<lparr>edge_in = ?i, edge_out = csr_notebook_id request\<rparr>]\<rparr>"
  let ?resp = "\<lparr>r_id = ?i,
                r_title = or_str (Some (or_str (csr_title request)
                                          (''Chat Session '' @ env_loop_time env))) [],
                r_notebook_id = Some (csr_notebook_id request),
                r_created = env_db_time env, r_updated = env_db_time env,
                r_message_count = Some 0,
                r_model_override = csr_model_override request\<rparr>"
  have "create_session env db request = (Inr ?resp, ?db2)"
    using nb
    by (simp add: create_session_def create_session_body_def Notebook_get_def ObjectModel_get_def
        ChatSession_save_def relate_to_notebook_def relate_def ensure_record_id_def Let_def)
  then show "\<exists>resp db' session.
         create_session env db request = (Inr resp, db') \<and>
         r_notebook_id resp = Some (csr_notebook_id request) \<and>
         r_id resp = ?i \<and>
         chat_session_tbl db' ?i = Some session \<and>
         cs_id session = Some ?i \<and>
         cs_model_override session = csr_model_override request \<and>
         refers_to db' = refers_to db @ [\<lparr>edge_in = ?i, edge_out = csr_notebook_id request\<rparr>] \<and>
         notebook_tbl db' = notebook_tbl db"
    by (intro exI [of _ ?resp] exI [of _ ?db2] exI [of _ ?s]) simp
qed

theorem create_session_notebook_witness:
  "create_session example_env db_unlinked
     \<lparr>csr_notebook_id = ''notebook:missing'', csr_title = None, csr_model_override = None\<rparr>
     = (Inl (HTTPException 404 ''Notebook not found''), db_unlinked) \<and>
   (\<exists>resp db'.
      create_session example_env db_unlinked
        \<lparr>csr_notebook_id = ''notebook:n1'', csr_title = Some ''Talk'',
         csr_model_override = Some ''model:m1''\<rparr> = (Inr resp, db') \<and>
      r_notebook_id resp = Some ''notebook:n1'' \<and>
      r_id resp = ''chat_session:k1'' \<and>
      refers_to db' = [\<lparr>edge_in = ''chat_session:k1'', edge_out = ''notebook:n1''\<rparr>])"
proof -
  have a: "notebook_tbl db_unlinked ''notebook:missing'' = None"
    by (simp add: db_unlinked_def)
  have b: "notebook_tbl db_unlinked ''notebook:n1'' \<noteq> None"
    by (simp add: db_unlinked_def)
  have r: "refers_to db_unlinked = []"
    by (simp add: db_unlinked_def)
  have k: "env_new_key example_env = ''k1''"
    by (simp add: example_env_def)
  from create_session_notebook [of db_unlinked
      "\<lparr>csr_notebook_id = ''notebook:missing'', csr_title = None, csr_model_override = None\<rparr>"
      example_env] a
  have 1: "create_session example_env db_unlinked
     \<lparr>csr_notebook_id = ''notebook:missing'', csr_title = None, csr_model_override = None\<rparr>
     = (Inl (HTTPException 404 ''Notebook not found''), db_unlinked)"
    by simp
  from create_session_notebook [of db_unlinked
      "\<lparr>csr_notebook_id = ''notebook:n1'', csr_title = Some ''Talk'',
         csr_model_override = Some ''model:m1''\<rparr>" example_env] b r k
  have 2: "\<exists>resp db'.
      create_session example_env db_unlinked
        \<lparr>csr_notebook_id = ''notebook:n1'', csr_title = Some ''Talk'',
         csr_model_override = Some ''model:m1''\<rparr> = (Inr resp, db') \<and>
      r_notebook_id resp = Some ''notebook:n1'' \<and>
      r_id resp = ''chat_session:k1'' \<and>
      refers_to db' = [\<lparr>edge_in = ''chat_session:k1'', edge_out = ''notebook:n1''\<rparr>]"
    by auto
  from 1 2 show ?thesis by blast
qed

text \<open>
  The loops of \<open>build_context\<close> append what each item contributes, in order.
\<close>

lemma append_source_context_fst:
  "fst (append_source_context ops s sz acc) =
     fst acc @ fst (append_source_context ops s sz ([], []))"
  by (simp add: append_source_context_def split: sum.splits)

lemma append_note_context_fst:
  "fst (append_note_context ops n sz acc) =
     fst acc @ fst (append_note_context ops n sz ([], []))"
  by (simp add: append_note_context_def split: sum.splits)

lemma source_step_fst:
  "fst (source_step ops db item acc) = fst acc @ source_contribution ops db item"
  using append_source_context_fst [of ops _ _ acc]
  by (simp add: source_step_def source_contribution_def Let_def split: sum.splits option.splits)

lemma note_step_fst:
  "fst (note_step ops db item acc) = fst acc @ note_contribution ops db item"
  using append_note_context_fst [of ops _ _ acc]
  by (simp add: note_step_def note_contribution_def Let_def split: sum.splits option.splits)

lemma process_sources_fst:
  "fst (process_sources ops db items acc) =
     fst acc @ concat (map (source_contribution ops db) items)"
  by (induction items arbitrary: acc) (simp_all add: source_step_fst)

lemma process_notes_fst:
  "fst (process_notes ops db items acc) =
     fst acc @ concat (map (note_contribution ops db) items)"
  by (induction items arbitrary: acc) (simp_all add: note_step_fst)

lemma all_sources_short_fst:
  "fst (all_sources_short ops xs acc) = fst acc @ concat (map (short_source_context ops) xs)"
proof (induction xs arbitrary: acc)
  case Nil
  then show ?case by simp
next
  case (Cons x xs)
  then show ?case
    using append_source_context_fst [of ops x Short acc]
    by (simp add: short_source_context_def)
qed

lemma all_notes_short_fst:
  "fst (all_notes_short ops xs acc) = fst acc @ concat (map (short_note_context ops) xs)"
proof (induction xs arbitrary: acc)
  case Nil
  then show ?case by simp
next
  case (Cons x xs)
  then show ?case
    using append_note_context_fst [of ops x Short acc]
    by (simp add: short_note_context_def)
qed

lemma build_context_lists:
  assumes "notebook_tbl db (bcr_notebook_id request) = Some notebook"
  shows "\<exists>resp. build_context ops db request = Inr resp \<and>
     bc_sources resp =
       (if config_given (bcr_context_config request)
        then concat (map (source_contribution ops db)
                       (items_of (cc_sources (bcr_context_config request))))
        else concat (map (short_source_context ops)
                       (Notebook_get_sources db (bcr_notebook_id request)))) \<and>
     bc_notes resp =
       (if config_given (bcr_context_config request)
        then concat (map (note_contribution ops db)
                       (items_of (cc_notes (bcr_context_config request))))
        else concat (map (short_note_context ops)
                       (Notebook_get_notes db (bcr_notebook_id request))))"
proof (cases "config_given (bcr_context_config request)")
  case True
  obtain a b where s: "process_sources ops db (items_of (cc_sources (bcr_context_config request))) ([], []) = (a, b)"
    by (cases "process_sources ops db (items_of (cc_sources (bcr_context_config request))) ([], [])")
  obtain c d where n: "process_notes ops db (items_of (cc_notes (bcr_context_config request))) ([], b) = (c, d)"
    by (cases "process_notes ops db (items_of (cc_notes (bcr_context_config request))) ([], b)")
  have a: "a = concat (map (source_contribution ops db) (items_of (cc_sources (bcr_context_config request))))"
    using process_sources_fst [of ops db "items_of (cc_sources (bcr_context_config request))" "([], [])"] s
    by simp
  have c: "c = concat (map (note_contribution ops db) (items_of (cc_notes (bcr_context_config request))))"
    using process_notes_fst [of ops db "items_of (cc_notes (bcr_context_config request))" "([], b)"] n
    by simp
  show ?thesis
    using assms True s n a c
    by (simp add: build_context_def build_context_body_def Notebook_get_def ObjectModel_get_def
        Let_def)
next
  case False
  obtain a b where s: "all_sources_short ops (Notebook_get_sources db (bcr_notebook_id request)) ([], []) = (a, b)"
    by (cases "all_sources_short ops (Notebook_get_sources db (bcr_notebook_id request)) ([], [])")
  obtain c d where n: "all_notes_short ops (Notebook_get_notes db (bcr_notebook_id request)) ([], b) = (c, d)"
    by (cases "all_notes_short ops (Notebook_get_notes db (bcr_notebook_id request)) ([], b)")
  have a: "a = concat (map (short_source_context ops) (Notebook_get_sources db (bcr_notebook_id request)))"
    using all_sources_short_fst [of ops "Notebook_get_sources db (bcr_notebook_id request)" "([], [])"] s
    by simp
  have c: "c = concat (map (short_note_context ops) (Notebook_get_notes db (bcr_notebook_id request)))"
    using all_notes_short_fst [of ops "Notebook_get_notes db (bcr_notebook_id request)" "([], b)"] n
    by simp
  show ?thesis
    using assms False s n a c
    by (simp add: build_context_def build_context_body_def Notebook_get_def ObjectModel_get_def
        Let_def)
qed

lemma not_in_contributes_nothing:
  "py_in ''not in'' status \<Longrightarrow>
     source_contribution ops db (i, status) = [] \<and> note_contribution ops db (i, status) = []"
  by (simp add: source_contribution_def note_contribution_def source_step_def note_step_def)

lemma source_insights_short:
  "\<not> py_in ''not in'' status \<Longrightarrow> py_in ''insights'' status \<Longrightarrow>
   configured_source db i = Some s \<Longrightarrow> co_source_get_context ops s Short = Inr c \<Longrightarrow>
     source_contribution ops db (i, status) = [c]"
  by (simp add: source_contribution_def source_step_def configured_source_def Source_get_def
      ObjectModel_get_def append_source_context_def Let_def)

lemma source_full_content_long:
  "\<not> py_in ''not in'' status \<Longrightarrow> \<not> py_in ''insights'' status \<Longrightarrow>
   py_in ''full content'' status \<Longrightarrow>
   configured_source db i = Some s \<Longrightarrow> co_source_get_context ops s Long = Inr c \<Longrightarrow>
     source_contribution ops db (i, status) = [c]"
  by (simp add: source_contribution_def source_step_def configured_source_def Source_get_def
      ObjectModel_get_def append_source_context_def Let_def)

lemma note_full_content_long:
  "\<not> py_in ''not in'' status \<Longrightarrow> py_in ''full content'' status \<Longrightarrow>
   configured_note db i = Some n \<Longrightarrow> co_note_get_context ops n Long = Inr c \<Longrightarrow>
     note_contribution ops db (i, status) = [c]"
  by (simp add: note_contribution_def note_step_def configured_note_def Note_get_def
      ObjectModel_get_def append_note_context_def Let_def)

lemma note_only_full_content:
  assumes "note_contribution ops db (i, status) \<noteq> []"
  shows "py_in ''full content'' status \<and> \<not> py_in ''not in'' status \<and>
         (\<exists>n c. configured_note db i = Some n \<and> co_note_get_context ops n Long = Inr c \<and>
                 note_contribution ops db (i, status) = [c])"
proof -
  have ni: "\<not> py_in ''not in'' status"
    using assms by (auto simp add: note_contribution_def note_step_def)
  obtain n where n: "configured_note db i = Some n"
    using assms ni
    by (cases "configured_note db i")
       (auto simp add: note_contribution_def note_step_def configured_note_def Note_get_def
          ObjectModel_get_def Let_def)
  have fc: "py_in ''full content'' status"
    using assms ni n
    by (auto simp add: note_contribution_def note_step_def configured_note_def Note_get_def
          ObjectModel_get_def Let_def split: if_splits)
  obtain c where c: "co_note_get_context ops n Long = Inr c"
    using assms ni n fc
    by (cases "co_note_get_context ops n Long")
       (auto simp add: note_contribution_def note_step_def configured_note_def Note_get_def
          ObjectModel_get_def Let_def append_note_context_def)
  from note_full_content_long [OF ni fc n c] ni fc n c show ?thesis by blast
qed

lemma short_contexts:
  "co_source_get_context ops s Short = Inr c \<Longrightarrow> short_source_context ops s = [c]"
  "co_note_get_context ops n Short = Inr d \<Longrightarrow> short_note_context ops n = [d]"
  by (simp_all add: short_source_context_def short_note_context_def append_source_context_def
      append_note_context_def)

text \<open>
  C3. For every \<open>build_context\<close> request for a stored notebook the endpoint answers with a
  context. When the request carries a context configuration, the sources and the notes of
  the context are what the configured sources and notes contribute, in the order of the
  configuration: an item whose status contains \<open>not in\<close> contributes nothing; otherwise a
  stored source whose status contains \<open>insights\<close> contributes its short context, and one whose
  status contains \<open>full content\<close> and not \<open>insights\<close> its long context; a note contributes only
  when its status contains \<open>full content\<close>, and then its long context. When the request carries
  no context configuration (an empty dictionary), every source and every note of the notebook
  contributes its short context.
\<close>

theorem build_context_selection:
  assumes "notebook_tbl db (bcr_notebook_id request) = Some notebook"
  shows
    "(\<exists>resp. build_context ops db request = Inr resp \<and>
        bc_sources resp =
          (if config_given (bcr_context_config request)
           then concat (map (source_contribution ops db)
                          (items_of (cc_sources (bcr_context_config request))))
           else concat (map (short_source_context ops)
                          (Notebook_get_sources db (bcr_notebook_id request)))) \<and>
        bc_notes resp =
          (if config_given (bcr_context_config request)
           then concat (map (note_contribution ops db)
                          (items_of (cc_notes (bcr_context_config request))))
           else concat (map (short_note_context ops)
                          (Notebook_get_notes db (bcr_notebook_id request))))) \<and>
     (\<forall>i status. py_in ''not in'' status \<longrightarrow>
        source_contribution ops db (i, status) = [] \<and> note_contribution ops db (i, status) = []) \<and>
     (\<forall>i status s c.
        \<not> py_in ''not in'' status \<and> py_in ''insights'' status \<and>
        configured_source db i = Some s \<and> co_source_get_context ops s Short = Inr c \<longrightarrow>
          source_contribution ops db (i, status) = [c]) \<and>
     (\<forall>i status s c.
        \<not> py_in ''not in'' status \<and> \<not> py_in ''insights'' status \<and>
        py_in ''full content'' status \<and>
        configured_source db i = Some s \<and> co_source_get_context ops s Long = Inr c \<longrightarrow>
          source_contribution ops db (i, status) = [c]) \<and>
     (\<forall>i status.
        note_contribution ops db (i, status) \<noteq> [] \<longrightarrow>
          py_in ''full content'' status \<and> \<not> py_in ''not in'' status \<and>
          (\<exists>n c. configured_note db i = Some n \<and> co_note_get_context ops n Long = Inr c \<and>
                  note_contribution ops db (i, status) = [c])) \<and>
     (\<forall>i status n c.
        \<not> py_in ''not in'' status \<and> py_in ''full content'' status \<and>
        configured_note db i = Some n \<and> co_note_get_context ops n Long = Inr c \<longrightarrow>
          note_contribution ops db (i, status) = [c]) \<and>
     (\<forall>s c. co_source_get_context ops s Short = Inr c \<longrightarrow> short_source_context ops s = [c]) \<and>
     (\<forall>n d. co_note_get_context ops n Short = Inr d \<longrightarrow> short_note_context ops n = [d])"
proof (intro conjI allI impI)
  show "\<exists>resp. build_context ops db request = Inr resp \<and>
        bc_sources resp =
          (if config_given (bcr_context_config request)
           then concat (map (source_contribution ops db)
                          (items_of (cc_sources (bcr_context_config request))))
           else concat (map (short_source_context ops)
                          (Notebook_get_sources db (bcr_notebook_id request)))) \<and>
        bc_notes resp =
          (if config_given (bcr_context_config request)
           then concat (map (note_contribution ops db)
                          (items_of (cc_notes (bcr_context_config request))))
           else concat (map (short_note_context ops)
                          (Notebook_get_notes db (bcr_notebook_id request))))"
    by (rule build_context_lists [OF assms])
next
  fix i status
  assume "py_in ''not in'' status"
  then show "source_contribution ops db (i, status) = []"
    and "note_contribution ops db (i, status) = []"
    using not_in_contributes_nothing by blast+
next
  fix i status s c
  assume "\<not> py_in ''not in'' status \<and> py_in ''insights'' status \<and>
        configured_source db i = Some s \<and> co_source_get_context ops s Short = Inr c"
  then show "source_contribution ops db (i, status) = [c]"
    using source_insights_short by blast
next
  fix i status s c
  assume "\<not> py_in ''not in'' status \<and> \<not> py_in ''insights'' status \<and>
        py_in ''full content'' status \<and>
        configured_source db i = Some s \<and> co_source_get_context ops s Long = Inr c"
  then show "source_contribution ops db (i, status) = [c]"
    using source_full_content_long by blast
next
  fix i status
  assume a: "note_contribution ops db (i, status) \<noteq> []"
  show "py_in ''full content'' status"
    and "\<not> py_in ''not in'' status"
    and "\<exists>n c. configured_note db i = Some n \<and> co_note_get_context ops n Long = Inr c \<and>
                  note_contribution ops db (i, status) = [c]"
    using note_only_full_content [OF a] by blast+
next
  fix i status n c
  assume "\<not> py_in ''not in'' status \<and> py_in ''full content'' status \<and>
        configured_note db i = Some n \<and> co_note_get_context ops n Long = Inr c"
  then show "note_contribution ops db (i, status) = [c]"
    using note_full_content_long by blast
next
  fix s c
  assume "co_source_get_context ops s Short = Inr c"
  then show "short_source_context ops s = [c]"
    by (rule short_contexts(1))
next
  fix n d
  assume "co_note_get_context ops n Short = Inr d"
  then show "short_note_context ops n = [d]"
    by (rule short_contexts(2))
qed

theorem build_context_selection_witness:
  "(\<exists>resp. build_context example_ops db_context example_context_request = Inr resp \<and>
      bc_sources resp = [example_short_source_ctx] \<and> bc_notes resp = [example_note_ctx]) \<and>
   (\<exists>resp. build_context example_ops db_context example_default_request = Inr resp \<and>
      bc_sources resp = [example_short_source_ctx] \<and> bc_notes resp = [example_short_note_ctx])"
proof -
  have nb: "notebook_tbl db_context (bcr_notebook_id example_context_request) = Some example_notebook"
    "notebook_tbl db_context (bcr_notebook_id example_default_request) = Some example_notebook"
    by (simp_all add: db_context_def db_unlinked_def example_context_request_def
        example_default_request_def)
  have g: "config_given (bcr_context_config example_context_request)"
    "\<not> config_given (bcr_context_config example_default_request)"
    by (simp_all add: config_given_def example_context_request_def example_default_request_def)
  have s: "concat (map (source_contribution example_ops db_context)
             (items_of (cc_sources (bcr_context_config example_context_request))))
           = [example_short_source_ctx]"
    by (simp add: example_context_request_def source_contribution_def source_step_def
        startswith_def Source_get_def ObjectModel_get_def db_context_def db_unlinked_def
        append_source_context_def example_ops_def Let_def)
  have n: "concat (map (note_contribution example_ops db_context)
             (items_of (cc_notes (bcr_context_config example_context_request))))
           = [example_note_ctx]"
    by (simp add: example_context_request_def note_contribution_def note_step_def
        startswith_def Note_get_def ObjectModel_get_def db_context_def db_unlinked_def
        append_note_context_def example_ops_def Let_def)
  have ds: "concat (map (short_source_context example_ops)
              (Notebook_get_sources db_context (bcr_notebook_id example_default_request)))
            = [example_short_source_ctx]"
    by (simp add: example_default_request_def Notebook_get_sources_def db_context_def
        db_unlinked_def short_source_context_def append_source_context_def example_ops_def)
  have dn: "concat (map (short_note_context example_ops)
              (Notebook_get_notes db_context (bcr_notebook_id example_default_request)))
            = [example_short_note_ctx]"
    by (simp add: example_default_request_def Notebook_get_notes_def db_context_def
        db_unlinked_def short_note_context_def append_note_context_def example_ops_def)
  from build_context_selection [OF nb(1), of example_ops] g(1) s n
  have 1: "\<exists>resp. build_context example_ops db_context example_context_request = Inr resp \<and>
      bc_sources resp = [example_short_source_ctx] \<and> bc_notes resp = [example_note_ctx]"
    by simp
  from build_context_selection [OF nb(2), of example_ops] g(2) ds dn
  have 2: "\<exists>resp. build_context example_ops db_context example_default_request = Inr resp \<and>
      bc_sources resp = [example_short_source_ctx] \<and> bc_notes resp = [example_short_note_ctx]"
    by simp
  from 1 2 show ?thesis by (rule conjI)
qed

end
